theory Spec2Isabelle
  imports Complex_Main "HOL-Library.Product_Lexorder" "HOL-Library.Multiset"
begin

section \<open>Python values shared by the two modules\<close>

text \<open>
  The exceptions that the modelled code can raise. A function that can raise returns a
  sum: \<open>Inl\<close> carries the exception that leaves the function, \<open>Inr\<close> the value it returns.
  Python's \<open>None\<close> is \<open>None\<close> of an option type.
\<close>

datatype error =
    TypeError
  | AttributeError
  | IndexError
  | SocketError
  | ServerConnectionError
  | ServerNotConnectedError
  | RuntimeError
  | UnicodeDecodeError

text \<open>
  An attribute of a Python object is either bound to a value or was never assigned;
  reading an attribute that was never assigned raises \<open>AttributeError\<close>.
\<close>

datatype 'a attr = Unset | Bound 'a

fun getattr :: "'a attr \<Rightarrow> error + 'a" where
  "getattr Unset = Inl AttributeError"
| "getattr (Bound v) = Inr v"

section \<open>session.py: Nickname\<close>

text \<open>
  Modelled from the spec: \<open>utils.nm_to_n\<close> (the module \<open>utils\<close> is imported by
  session.py and connection.py but is not among the sources). The spec calls it the
  hostmask-to-nick extraction and says that the hostmask \<open>nick!user@host\<close> yields the
  name \<open>nick\<close>: the model returns the text before the first exclamation mark. The spec
  does not say what the extraction does with a null hostmask; the model has no nick to
  return there and raises.
\<close>

fun nm_to_n :: "string option \<Rightarrow> error + string" where
  "nm_to_n None = Inl AttributeError"
| "nm_to_n (Some s) = Inr (takeWhile (\<lambda>c. c \<noteq> CHR ''!'') s)"

text \<open>
  \<open>Nickname.__init__(self, host, nickname_only=False)\<close>: in \<open>nickname_only\<close> mode the
  constructor assigns \<open>self.name\<close> only, otherwise \<open>self.name\<close> and \<open>self.host\<close>.
\<close>

record Nickname =
  name :: "string option"
  host :: "string option attr"

definition Nickname_init :: "string option \<Rightarrow> bool \<Rightarrow> error + Nickname" where
  "Nickname_init h nickname_only =
     (if nickname_only then Inr \<lparr>name = h, host = Unset\<rparr>
      else case nm_to_n h of
             Inl e \<Rightarrow> Inl e
           | Inr n \<Rightarrow> Inr \<lparr>name = Some n, host = Bound h\<rparr>)"

section \<open>connection.py: Event\<close>

text \<open>
  \<open>Event\<close> is a namedtuple with the fields \<open>eventtype\<close>, \<open>source\<close>, \<open>target\<close> and
  \<open>argument\<close> (connection.py, lines 1020 to 1037): each field holds a value, the event
  type a string.
\<close>

record event =
  eventtype :: string
  source :: "string option"
  target :: "string option"
  argument :: "string list"

text \<open>
  The two dispatchers of connection.py read the event type with the call
  \<open>event.eventtype()\<close>. Every event of the sources is an \<open>Event\<close> of this module, whose
  attribute \<open>eventtype\<close> is the string itself: the call calls a string, which raises
  \<open>TypeError\<close>. (session.py reads the field without calling it.)
\<close>

definition Event_eventtype_call :: "event \<Rightarrow> error + string" where
  "Event_eventtype_call ev = Inl TypeError"

section \<open>connection.py: the global handlers of IRC\<close>

text \<open>
  \<open>bisect.insort\<close> of the Python library, which \<open>add_global_handler\<close> calls: a binary
  search for the place behind every entry that is not greater than the new one, and
  \<open>list.insert\<close> there. Entries are the tuples \<open>(priority, handler)\<close>; Python compares
  tuples from the left, so two entries of one priority are compared by their handlers.
  Python 2 orders function objects (by their addresses); the type of handlers is any
  linear order.
\<close>

function bisect_right :: "'a::linorder list \<Rightarrow> 'a \<Rightarrow> nat \<Rightarrow> nat \<Rightarrow> nat" where
  "bisect_right a x lo hi =
     (if lo < hi then
        (let mid = (lo + hi) div 2
         in if x < a ! mid then bisect_right a x lo mid
            else bisect_right a x (mid + 1) hi)
      else lo)"
  by pat_completeness auto
termination
  by (relation "measure (\<lambda>(a, x, lo, hi). hi - lo)") auto

declare bisect_right.simps [simp del]

definition bisect_insort :: "'a::linorder list \<Rightarrow> 'a \<Rightarrow> 'a list" where
  "bisect_insort a x = (let lo = bisect_right a x 0 (length a) in take lo a @ x # drop lo a)"

text \<open>\<open>h.get(k, [])\<close> on a dictionary of lists.\<close>

definition get_list :: "('k \<rightharpoonup> 'v list) \<Rightarrow> 'k \<Rightarrow> 'v list" where
  "get_list h k = (case h k of None \<Rightarrow> [] | Some l \<Rightarrow> l)"

definition add_global_handler ::
  "(string \<rightharpoonup> (int \<times> 'h::linorder) list) \<Rightarrow> string \<Rightarrow> 'h \<Rightarrow> int \<Rightarrow> (string \<rightharpoonup> (int \<times> 'h) list)" where
  "add_global_handler handlers ev handler priority =
     handlers(ev \<mapsto> bisect_insort (get_list handlers ev) (priority, handler))"

text \<open>A sequence of registrations \<open>(event, handler, priority)\<close> on the empty table.\<close>

definition registered :: "(string \<times> 'h::linorder \<times> int) list \<Rightarrow> (string \<rightharpoonup> (int \<times> 'h) list)" where
  "registered regs = foldl (\<lambda>hs (e, h, p). add_global_handler hs e h p) Map.empty regs"

text \<open>
  \<open>IRC._handle_event\<close>. A handler is called with the connection and the event and returns
  a value or raises: \<open>call h ev\<close> is \<open>Inr r\<close> with the string it returns (\<open>None\<close> for any
  value that is not a string) or \<open>Inl e\<close>. What a handler does to the connection is not
  modelled. The result is the list of the handlers called, in order, and the exception
  that left the dispatch, if any. The first operand \<open>h.get("all_events", [])\<close> is read
  before the event type is; the loop starts when both operands have been evaluated.
\<close>

fun global_loop ::
  "('h \<Rightarrow> event \<Rightarrow> error + string option) \<Rightarrow> event \<Rightarrow> (int \<times> 'h) list \<Rightarrow> 'h list \<times> error option" where
  "global_loop call ev [] = ([], None)"
| "global_loop call ev (x # xs) =
     (case call (snd x) ev of
        Inl e \<Rightarrow> ([snd x], Some e)
      | Inr r \<Rightarrow>
          if r = Some ''NO MORE'' then ([snd x], None)
          else (let (cs, out) = global_loop call ev xs in (snd x # cs, out)))"

definition IRC_handle_event ::
  "('h \<Rightarrow> event \<Rightarrow> error + string option) \<Rightarrow>
   (string \<rightharpoonup> (int \<times> 'h) list) \<Rightarrow> event \<Rightarrow> 'h list \<times> error option" where
  "IRC_handle_event call h ev =
     (let all = get_list h ''all_events''
      in case Event_eventtype_call ev of
           Inl e \<Rightarrow> ([], Some e)
         | Inr t \<Rightarrow> global_loop call ev (all @ get_list h t))"

text \<open>
  \<open>ServerConnection._handle_event\<close>: the dispatch of the library object \<open>irclibobj\<close> (the
  parameter \<open>irc\<close>: what it did and the exception that left it), then the handlers of the
  connection's own table for the event type. In the result \<open>Inl\<close> marks what the library
  object did and \<open>Inr\<close> a handler of the connection's table.
\<close>

fun conn_loop :: "('f \<Rightarrow> event \<Rightarrow> error option) \<Rightarrow> event \<Rightarrow> 'f list \<Rightarrow> 'f list \<times> error option" where
  "conn_loop callc ev [] = ([], None)"
| "conn_loop callc ev (f # fs) =
     (case callc f ev of
        Some e \<Rightarrow> ([f], Some e)
      | None \<Rightarrow> (let (cs, out) = conn_loop callc ev fs in (f # cs, out)))"

definition ServerConnection_handle_event ::
  "(event \<Rightarrow> 'o list \<times> error option) \<Rightarrow>
   (string \<rightharpoonup> 'f list) \<Rightarrow> ('f \<Rightarrow> event \<Rightarrow> error option) \<Rightarrow> event \<Rightarrow> ('o + 'f) list \<times> error option" where
  "ServerConnection_handle_event irc handlers callc ev =
     (case irc ev of
        (os, Some e) \<Rightarrow> (map Inl os, Some e)
      | (os, None) \<Rightarrow>
          (case Event_eventtype_call ev of
             Inl e \<Rightarrow> (map Inl os, Some e)
           | Inr t \<Rightarrow>
               (case handlers t of
                  None \<Rightarrow> (map Inl os, None)
                | Some fs \<Rightarrow>
                    (let (cs, out) = conn_loop callc ev fs
                     in (map Inl os @ map Inr cs, out)))))"

section \<open>session.py: HighEvent and the translation of a low-level Event\<close>

text \<open>
  Text that reaches the library is ASCII in this model; \<open>lower\<close> is \<open>str.lower\<close> on it,
  \<open>join_sp\<close> is \<open>' '.join\<close>, and \<open>arg xs i\<close> is the subscript \<open>xs[i]\<close>, which raises
  \<open>IndexError\<close> behind the end of the list.
\<close>

definition lower_char :: "char \<Rightarrow> char" where
  "lower_char c =
     (let n = (of_char c :: nat) in if 65 \<le> n \<and> n \<le> 90 then char_of (n + 32) else c)"

definition lower :: "string \<Rightarrow> string" where
  "lower s = map lower_char s"

fun join_sp :: "string list \<Rightarrow> string" where
  "join_sp [] = []"
| "join_sp [x] = x"
| "join_sp (x # y # ys) = x @ '' '' @ join_sp (y # ys)"

definition arg :: "'a list \<Rightarrow> nat \<Rightarrow> error + 'a" where
  "arg xs i = (if i < length xs then Inr (xs ! i) else Inl IndexError)"

text \<open>The first exception ends a sequence of steps.\<close>

definition bnd :: "error + 'a \<Rightarrow> ('a \<Rightarrow> error + 'b) \<Rightarrow> error + 'b" where
  "bnd r f = (case r of Inl e \<Rightarrow> Inl e | Inr v \<Rightarrow> f v)"

text \<open>
  An elementary mode change is the tuple (sign, mode letter, parameter or null). The
  attribute \<open>modes\<close> of a HighEvent holds one tuple or the whole list.
\<close>

type_synonym mode_change = "string \<times> string \<times> string option"

datatype modes_value = Single mode_change | Many "mode_change list"

text \<open>
  The methods that session.py calls on the connection object \<open>server\<close>. The object is a
  \<open>ServerConnection\<close>: \<open>Session.server\<close> creates no other, and the connection passes
  itself to \<open>Session._handle_event\<close>. The class defines \<open>pong\<close> and \<open>ctcp_reply\<close>, but no
  \<open>_parse_modes\<close>, no \<open>hasanymodes\<close> and no \<open>is_channel\<close>, and no statement of the sources
  assigns them: looking up one of the three names on the object raises \<open>AttributeError\<close>,
  before the call is made.
\<close>

definition server_parse_modes :: "string \<Rightarrow> error + mode_change list" where
  "server_parse_modes s =
     bnd (getattr (Unset :: (string \<Rightarrow> mode_change list) attr)) (\<lambda>f. Inr (f s))"

definition server_hasanymodes :: "string \<Rightarrow> string \<Rightarrow> string \<Rightarrow> error + bool" where
  "server_hasanymodes chan nick ms =
     bnd (getattr (Unset :: (string \<Rightarrow> string \<Rightarrow> string \<Rightarrow> bool) attr)) (\<lambda>f. Inr (f chan nick ms))"

definition server_is_channel :: "string option \<Rightarrow> error + bool" where
  "server_is_channel chan =
     bnd (getattr (Unset :: (string option \<Rightarrow> bool) attr)) (\<lambda>f. Inr (f chan))"

text \<open>
  \<open>HighEvent\<close>: the four attributes that the constructor assigns (the reference to the
  connection is left out), and the attributes that \<open>from_low_event\<close> assigns for some
  commands only. The attributes \<open>source\<close> and \<open>target\<close> of the fallback are \<open>low_source\<close> and
  \<open>low_target\<close> here.
\<close>

record HighEvent =
  command :: string
  nickname :: "Nickname option"
  channel :: "string option"
  message :: "string option"
  server_name :: "string option attr"
  new_nickname :: "Nickname attr"
  text_command :: "string attr"
  ctcp :: "string attr"
  kicker :: "Nickname attr"
  modes :: "modes_value attr"
  low_source :: "string option attr"
  low_target :: "string option attr"

definition creator :: "string \<Rightarrow> Nickname option \<Rightarrow> string option \<Rightarrow> string option \<Rightarrow> HighEvent" where
  "creator cmd n c m =
     \<lparr>command = cmd, nickname = n, channel = c, message = m, server_name = Unset,
      new_nickname = Unset, text_command = Unset, ctcp = Unset, kicker = Unset,
      modes = Unset, low_source = Unset, low_target = Unset\<rparr>"

definition from_low_event :: "event \<Rightarrow> error + HighEvent" where
  "from_low_event low =
     (let cmd = eventtype low; args = argument low in
      if cmd = ''welcome'' then
        bnd (Nickname_init (target low) True) (\<lambda>n.
        bnd (arg args 0) (\<lambda>m.
          Inr ((creator cmd (Some n) None (Some m))
                 \<lparr>command := ''connect'', server_name := Bound (source low)\<rparr>)))
      else if cmd = ''nick'' then
        bnd (Nickname_init (source low) False) (\<lambda>old.
        bnd (Nickname_init (source low) False) (\<lambda>new.
          Inr ((creator cmd (Some old) None None)
                 \<lparr>new_nickname := Bound (new\<lparr>name := target low\<rparr>)\<rparr>)))
      else if cmd \<in> {''pubmsg'', ''pubnotice''} then
        bnd (Nickname_init (source low) False) (\<lambda>n.
        bnd (arg args 0) (\<lambda>m.
          Inr ((creator cmd (Some n) (target low) (Some m))
                 \<lparr>text_command := Bound cmd, command := ''text''\<rparr>)))
      else if cmd \<in> {''privmsg'', ''privnotice''} then
        bnd (Nickname_init (source low) False) (\<lambda>n.
        bnd (arg args 0) (\<lambda>m.
          Inr ((creator cmd (Some n) None (Some m))
                 \<lparr>text_command := Bound cmd, command := ''text''\<rparr>)))
      else if cmd = ''ctcp'' then
        bnd (Nickname_init (source low) False) (\<lambda>n.
        bnd (arg args 0) (\<lambda>c.
          Inr ((creator cmd (Some n) None (Some (join_sp (drop 1 args))))\<lparr>ctcp := Bound c\<rparr>)))
      else if cmd = ''action'' then
        bnd (Nickname_init (source low) False) (\<lambda>n.
        bnd (server_is_channel (target low)) (\<lambda>is_chan.
        bnd (arg args 0) (\<lambda>m.
          Inr (creator cmd (Some n) (if is_chan then target low else None) (Some m)))))
      else if cmd = ''ctcpreply'' then
        bnd (Nickname_init (source low) False) (\<lambda>n.
        bnd (arg args 0) (\<lambda>c.
          Inr ((creator cmd (Some n) None (Some (join_sp (drop 1 args))))\<lparr>ctcp := Bound c\<rparr>)))
      else if cmd = ''quit'' then
        bnd (Nickname_init (source low) False) (\<lambda>n.
        bnd (arg args 0) (\<lambda>m.
          Inr (creator cmd (Some n) None (Some m))))
      else if cmd = ''join'' then
        bnd (Nickname_init (source low) False) (\<lambda>n.
          Inr (creator cmd (Some n) (target low) None))
      else if cmd = ''part'' then
        bnd (Nickname_init (source low) False) (\<lambda>n.
          Inr (creator cmd (Some n) (target low) None))
      else if cmd = ''kick'' then
        bnd (Nickname_init (source low) False) (\<lambda>k.
        bnd (arg args 0) (\<lambda>kicked.
        bnd (Nickname_init (Some kicked) True) (\<lambda>t.
        bnd (arg args 1) (\<lambda>reason.
          Inr ((creator cmd (Some t) (target low) (Some reason))\<lparr>kicker := Bound k\<rparr>)))))
      else if cmd = ''invite'' then
        bnd (Nickname_init (source low) False) (\<lambda>n.
        bnd (arg args 0) (\<lambda>c.
          Inr (creator cmd (Some n) (Some c) None)))
      else if cmd \<in> {''mode'', ''umode''} then
        bnd (Nickname_init (source low) False) (\<lambda>setter.
        bnd (server_parse_modes (join_sp args)) (\<lambda>ms.
          if length ms > 1
          then Inr ((creator cmd (Some setter) (target low) None)\<lparr>modes := Bound (Many ms)\<rparr>)
          else bnd (arg ms 0) (\<lambda>m.
            Inr ((creator cmd (Some setter) (target low) None)\<lparr>modes := Bound (Single m)\<rparr>))))
      else if cmd \<in> {''topic'', ''currenttopic'', ''notopic''} then
        bnd (if cmd = ''currenttopic'' then bnd (arg args 0) (\<lambda>c. Inr (Some c)) else Inr (target low))
          (\<lambda>chan.
        bnd (if cmd = ''topic'' then Nickname_init (source low) False
             else Inr \<lparr>name = None, host = Unset\<rparr>) (\<lambda>setter.
        bnd (if cmd = ''currenttopic'' then Inr (join_sp (drop 1 args))
             else if cmd = ''topic'' then arg args 0 else Inr []) (\<lambda>topic.
          Inr ((creator cmd None chan (Some topic))\<lparr>command := ''topic''\<rparr>))))
      else if cmd = ''all_raw_messages'' then
        bnd (arg args 0) (\<lambda>m.
          Inr ((creator cmd None None (Some m))\<lparr>command := ''raw''\<rparr>))
      else
        bnd (arg args 0) (\<lambda>m.
          Inr ((creator cmd None None (Some m))
                 \<lparr>low_source := Bound (source low), low_target := Bound (target low)\<rparr>)))"

section \<open>session.py: the registry of declarative handlers\<close>

text \<open>
  An entry of \<open>Session.handlers\<close>: the namedtuple \<open>Handler\<close> of \<open>event_handler\<close>, with the
  callback (any type \<open>'f\<close>), the three lists of lower-cased names, the string of required
  modes, and the compiled pattern or null. A compiled pattern is modelled by its \<open>match\<close>,
  a predicate on the message; \<open>re_compile\<close> stands for \<open>re.compile(regex, re.I)\<close>.
\<close>

record 'f Handler =
  handler :: 'f
  events :: "string list"
  channels :: "string list"
  nicks :: "string list"
  modes_required :: string
  regex :: "(string \<Rightarrow> bool) option"

definition event_handler ::
  "(string \<Rightarrow> string \<Rightarrow> bool) \<Rightarrow> string list \<Rightarrow> string list \<Rightarrow> string list \<Rightarrow> string \<Rightarrow> string \<Rightarrow> 'f
   \<Rightarrow> 'f Handler" where
  "event_handler re_compile evs chans ns ms rx fn =
     \<lparr>handler = fn, events = map lower evs, channels = map lower chans, nicks = map lower ns,
      modes_required = ms, regex = (if rx \<noteq> [] then Some (re_compile rx) else None)\<rparr>"

text \<open>
  The tests of the handler loop of \<open>Session._handle_event\<close> for one handler, in the order
  of the source: each \<open>continue\<close> is \<open>Inr False\<close>, reaching the call of the callback is
  \<open>Inr True\<close>, and the exception of \<open>server.hasanymodes\<close> is \<open>Inl\<close>. \<open>chan\<close> and \<open>nick\<close> are
  the lower-cased channel and nick of the event or null, \<open>msg\<close> its message or null. The
  test of the modes is made when channel and nick are both present and not empty and the
  handler's string of modes is not empty; the test of the pattern is made when the message
  is present and not empty and the handler has a pattern.
\<close>

definition truthy :: "string option \<Rightarrow> bool" where
  "truthy s = (case s of None \<Rightarrow> False | Some x \<Rightarrow> x \<noteq> [])"

definition among :: "string option \<Rightarrow> string list \<Rightarrow> bool" where
  "among s xs = (case s of None \<Rightarrow> False | Some x \<Rightarrow> x \<in> set xs)"

definition triggers ::
  "'f Handler \<Rightarrow> string \<Rightarrow> string option \<Rightarrow> string option \<Rightarrow> string option \<Rightarrow> error + bool" where
  "triggers h cmd chan nick msg =
     (if events h \<noteq> [] \<and> lower cmd \<notin> set (events h) then Inr False
      else if channels h \<noteq> [] \<and> \<not> among chan (channels h) then Inr False
      else if nicks h \<noteq> [] \<and> \<not> among nick (nicks h) then Inr False
      else
        bnd (case (chan, nick) of
               (Some c, Some n) \<Rightarrow>
                 if c \<noteq> [] \<and> n \<noteq> [] \<and> modes_required h \<noteq> []
                 then server_hasanymodes c n (modes_required h)
                 else Inr True
             | _ \<Rightarrow> Inr True) (\<lambda>has.
          if \<not> has then Inr False
          else if truthy msg \<and> (case (msg, regex h) of (Some m, Some p) \<Rightarrow> \<not> p m | _ \<Rightarrow> False)
          then Inr False
          else Inr True))"

text \<open>
  What \<open>Session._handle_event\<close> does, in order: the built-in replies (\<open>Pong\<close>, the CTCP
  responder, whose exceptions are swallowed and whose replies are not modelled), the
  translation of a low-level event (\<open>Translated\<close>: the event was given to
  \<open>from_low_event\<close>), and the callbacks it fires with the HighEvent (\<open>Fired\<close>; an exception
  of a callback is caught and logged).
\<close>

datatype 'f obs =
    Pong "string option"
  | CtcpResponder event
  | Translated event
  | Fired 'f HighEvent

text \<open>
  The loop over \<open>Session.handlers.values()\<close>, the list \<open>hs\<close>: an exception of a test
  leaves the loop, and the handlers behind it are not looked at.
\<close>

fun handler_loop ::
  "'f Handler list \<Rightarrow> HighEvent \<Rightarrow> string option \<Rightarrow> string option \<Rightarrow> 'f obs list \<times> error option" where
  "handler_loop [] he chan nick = ([], None)"
| "handler_loop (h # hs) he chan nick =
     (case triggers h (command he) chan nick (message he) of
        Inl e \<Rightarrow> ([], Some e)
      | Inr fire \<Rightarrow>
          (let (os, out) = handler_loop hs he chan nick
           in ((if fire then [Fired (handler h) he] else []) @ os, out)))"

text \<open>
  The part of \<open>Session._handle_event\<close> from the translation on. A Nickname whose name is
  null has no \<open>lower\<close>.
\<close>

definition lowered_channel :: "HighEvent \<Rightarrow> string option" where
  "lowered_channel he = (if truthy (channel he) then map_option lower (channel he) else channel he)"

definition lowered_nick :: "HighEvent \<Rightarrow> error + string option" where
  "lowered_nick he =
     (case nickname he of
        None \<Rightarrow> Inr None
      | Some n \<Rightarrow> (case name n of None \<Rightarrow> Inl AttributeError | Some s \<Rightarrow> Inr (Some (lower s))))"

definition translate_and_dispatch :: "'f Handler list \<Rightarrow> event \<Rightarrow> 'f obs list \<times> error option" where
  "translate_and_dispatch hs ev =
     (case from_low_event ev of
        Inl e \<Rightarrow> ([Translated ev], Some e)
      | Inr he \<Rightarrow>
          (case lowered_nick he of
             Inl e \<Rightarrow> ([Translated ev], Some e)
           | Inr nick \<Rightarrow>
               (let (os, out) = handler_loop hs he (lowered_channel he) nick
                in (Translated ev # os, out))))"

text \<open>
  The elementary change \<open>(sign, mode, param)\<close> of a mode event, raised again as a
  low-level event of its own; a parameter that is null or empty becomes the empty string.
\<close>

definition reemit :: "event \<Rightarrow> mode_change \<Rightarrow> event" where
  "reemit ev t =
     (case t of (sign, mode, param) \<Rightarrow>
        \<lparr>eventtype = eventtype ev, source = source ev, target = target ev,
         argument = [sign @ mode, (case param of Some p \<Rightarrow> p | None \<Rightarrow> [])]\<rparr>)"

text \<open>A sequence of calls, each with what it did and the exception it raised: the first
  exception ends the sequence.\<close>

fun run_each :: "('o list \<times> error option) list \<Rightarrow> 'o list \<times> error option" where
  "run_each [] = ([], None)"
| "run_each ((os, Some e) # rs) = (os, Some e)"
| "run_each ((os, None) # rs) = (let (os', out) = run_each rs in (os @ os', out))"

text \<open>
  \<open>Session._handle_event(server, event)\<close>. \<open>handle_ctcp\<close> is the flag of the Session, and
  \<open>pong t\<close> the outcome of \<open>connection.pong(t)\<close> in \<open>_ping_ponger\<close>: the exception that the
  write raises, if any. A mode event is decoded with \<open>server._parse_modes\<close> before it is
  translated; the method calls itself for every elementary change of a decoded list with
  more than one. \<open>d\<close> is the depth of calls that the Python stack still allows, and a call
  at depth 0 raises \<open>RuntimeError\<close> (maximum recursion depth exceeded).
\<close>

fun Session_handle_event ::
  "nat \<Rightarrow> bool \<Rightarrow> (string option \<Rightarrow> error option) \<Rightarrow> 'f Handler list \<Rightarrow> event
   \<Rightarrow> 'f obs list \<times> error option" where
  "Session_handle_event 0 handle_ctcp pong hs ev = ([], Some RuntimeError)"
| "Session_handle_event (Suc d) handle_ctcp pong hs ev =
     (let ping = (eventtype ev = ''ping'');
          o1 = (if ping then [Pong (target ev)] else [])
      in case (if ping then pong (target ev) else None) of
           Some e \<Rightarrow> (o1, Some e)
         | None \<Rightarrow>
             (let o2 = o1 @ (if handle_ctcp \<and> eventtype ev = ''ctcp'' then [CtcpResponder ev] else [])
              in if eventtype ev \<in> {''mode'', ''umode''} then
                   (case server_parse_modes (join_sp (argument ev)) of
                      Inl e \<Rightarrow> (o2, Some e)
                    | Inr ms \<Rightarrow>
                        if length ms > 1
                        then (let (os, out) =
                                    run_each (map (\<lambda>t. Session_handle_event d handle_ctcp pong hs (reemit ev t)) ms)
                              in (o2 @ os, out))
                        else (let (os, out) = translate_and_dispatch hs ev in (o2 @ os, out)))
                 else (let (os, out) = translate_and_dispatch hs ev in (o2 @ os, out))))"

text \<open>
  \<open>str.split()\<close> of Python, without a separator: the words between runs of white space.
\<close>

definition is_space :: "char \<Rightarrow> bool" where
  "is_space c = (c \<in> set [CHR '' '', CHR 0x09, CHR 0x0A, CHR 0x0B, CHR 0x0C, CHR 0x0D,
                            CHR 0x1C, CHR 0x1D, CHR 0x1E, CHR 0x1F])"

fun split_acc :: "string \<Rightarrow> string \<Rightarrow> string list" where
  "split_acc cur [] = (if cur = [] then [] else [cur])"
| "split_acc cur (c # cs) =
     (if is_space c then (if cur = [] then split_acc [] cs else cur # split_acc [] cs)
      else split_acc (cur @ [c]) cs)"

definition py_split :: "string \<Rightarrow> string list" where
  "py_split s = split_acc [] s"

section \<open>connection.py: the state of a ServerConnection\<close>

text \<open>
  A connected socket of the transport; \<open>accepts\<close> says whether a write on it succeeds
  (otherwise \<open>sendall\<close> raises \<open>socket.error\<close>). What a connection does that can be seen
  from outside is appended to its field \<open>out\<close>: a line written to the socket, the closing
  of the socket, the opening of a new one, and an Event given to \<open>self._handle_event\<close>.
\<close>

datatype sock = Sock (accepts: bool)

datatype action =
    Sent string
  | Closed
  | Opened
  | Emitted event

text \<open>
  The attributes of a ServerConnection that the modelled methods read or assign. Times
  are the readings of \<open>time.time()\<close>, taken as real numbers. The attributes that
  \<open>connect\<close> assigns (\<open>server\<close>, \<open>nickname\<close>, \<open>previous_buffer\<close> and the others) are
  bound in every state of the model: a state is one of a connection on which \<open>connect\<close> has
  been called. \<open>nickname'\<close>, \<open>username\<close>, \<open>ircname\<close> and \<open>password\<close> are the login data
  that \<open>reconnect\<close> passes again; the local address and port, the TLS and IPv6 flags
  only reach the socket calls and are left out, and so is the connection's own handler
  table, which only the dispatcher reads.
\<close>

record ServerConnection =
  connected :: bool
  socket :: "sock option"
  message_queue :: "string list"
  sent_bytes :: nat
  send_time :: real
  last_time :: real
  last_ping :: real
  featurelist :: "(string \<times> string) list"
  previous_buffer :: string
  real_server_name :: string
  real_nickname :: string
  server :: string
  port :: nat
  nickname' :: string
  password :: "string option"
  username :: string
  ircname :: string
  out :: "action list"

text \<open>
  \<open>ServerConnection.__init__\<close> at the time \<open>now\<close>: not connected, no socket, an empty
  queue, the counters at zero and both time stamps at \<open>now\<close>. (The attributes that only
  \<open>connect\<close> assigns are shown empty; the constructor does not assign \<open>self.sqlite\<close>.)
\<close>

definition ServerConnection_init :: "real \<Rightarrow> ServerConnection" where
  "ServerConnection_init now =
     \<lparr>connected = False, socket = None, message_queue = [], sent_bytes = 0, send_time = 0,
      last_time = now, last_ping = now, featurelist = [], previous_buffer = [],
      real_server_name = [], real_nickname = [], server = [], port = 0, nickname' = [],
      password = None, username = [], ircname = [], out = []\<rparr>"

text \<open>
  What a connection meets outside itself. \<open>dispatch ev\<close> is the outcome of
  \<open>self._handle_event(ev)\<close>: the exception that leaves it, if any (what the handlers do
  to the connection is not modelled). \<open>fn_to_add_socket\<close> is that attribute of the library
  object: an \<open>IRC\<close> object binds it (to null or to a function), a \<open>Session\<close> object never
  assigns it. \<open>network\<close> is what opening, binding and connecting a new socket gives: a
  socket, or null when one of the calls raises \<open>socket.error\<close>.
\<close>

record world =
  dispatch :: "event \<Rightarrow> error option"
  fn_to_add_socket :: "bool attr"
  network :: "sock option"

text \<open>
  The dispatcher that the class defines, for the Events of this module: the dispatch of
  the library object (\<open>irc\<close>: the exception that leaves it), then the call
  \<open>event.eventtype()\<close> on the namedtuple.
\<close>

definition own_dispatch :: "(event \<Rightarrow> error option) \<Rightarrow> event \<Rightarrow> error option" where
  "own_dispatch irc ev =
     snd (ServerConnection_handle_event (\<lambda>e. ([] :: unit list, irc e))
            (Map.empty :: string \<rightharpoonup> unit list) (\<lambda>f e. None) ev)"

definition emit :: "world \<Rightarrow> event \<Rightarrow> ServerConnection \<Rightarrow> ServerConnection \<times> error option" where
  "emit w ev c = (c\<lparr>out := out c @ [Emitted ev]\<rparr>, dispatch w ev)"

text \<open>
  The write of \<open>send_raw_instant\<close>: without a socket \<open>ServerNotConnectedError\<close>, on a
  socket that refuses the write \<open>socket.error\<close>, otherwise the string and CR LF are
  written.
\<close>

definition crlf :: string where
  "crlf = [CHR 0x0D, CHR 0x0A]"

definition transmit :: "string \<Rightarrow> ServerConnection \<Rightarrow> error + ServerConnection" where
  "transmit s c =
     (case socket c of
        None \<Rightarrow> Inl ServerNotConnectedError
      | Some k \<Rightarrow> if accepts k then Inr (c\<lparr>out := out c @ [Sent (s @ crlf)]\<rparr>) else Inl SocketError)"

definition quit_line :: "string \<Rightarrow> string" where
  "quit_line msg = ''QUIT'' @ (if msg \<noteq> [] then '' :'' @ msg else msg)"

text \<open>
  \<open>disconnect(message)\<close>. It calls \<open>quit\<close>, which calls \<open>send_raw_instant\<close>; when the write
  raises \<open>socket.error\<close> there, \<open>send_raw_instant\<close> calls \<open>disconnect\<close> again, which finds
  \<open>connected\<close> already 0 and returns at once: that inner call is written out here.
  \<open>socket.close()\<close> may raise \<open>socket.error\<close>, which is caught.
\<close>

definition disconnect :: "world \<Rightarrow> string \<Rightarrow> ServerConnection \<Rightarrow> ServerConnection \<times> error option" where
  "disconnect w msg c =
     (if \<not> connected c then (c, None)
      else
        (let c1 = c\<lparr>connected := False\<rparr>
         in case transmit (quit_line msg) c1 of
              Inl ServerNotConnectedError \<Rightarrow> (c1, Some ServerNotConnectedError)
            | Inl e \<Rightarrow>
                emit w \<lparr>eventtype = ''disconnect'', source = Some (server c1), target = Some [],
                        argument = [msg]\<rparr>
                  (c1\<lparr>out := out c1 @ [Closed], socket := None\<rparr>)
            | Inr c2 \<Rightarrow>
                emit w \<lparr>eventtype = ''disconnect'', source = Some (server c2), target = Some [],
                        argument = [msg]\<rparr>
                  (c2\<lparr>out := out c2 @ [Closed], socket := None\<rparr>)))"

definition send_raw_instant :: "world \<Rightarrow> string \<Rightarrow> ServerConnection \<Rightarrow> ServerConnection \<times> error option" where
  "send_raw_instant w s c =
     (case transmit s c of
        Inr c' \<Rightarrow> (c', None)
      | Inl SocketError \<Rightarrow> disconnect w ''Connection reset by peer.'' c
      | Inl e \<Rightarrow> (c, Some e))"

definition send_raw :: "string \<Rightarrow> ServerConnection \<Rightarrow> ServerConnection \<times> error option" where
  "send_raw s c =
     (case socket c of
        None \<Rightarrow> (c, Some ServerNotConnectedError)
      | Some k \<Rightarrow> (c\<lparr>message_queue := message_queue c @ [s]\<rparr>, None))"

text \<open>
  The three lines of the login, which \<open>connect\<close> queues with \<open>send_raw\<close>: \<open>PASS\<close> when a
  password is set, \<open>NICK\<close> and \<open>USER\<close>.
\<close>

definition login_lines :: "ServerConnection \<Rightarrow> string list" where
  "login_lines c =
     (case password c of
        None \<Rightarrow> []
      | Some p \<Rightarrow> if p \<noteq> [] then [''PASS '' @ p] else [])
     @ [''NICK '' @ nickname' c, ''USER '' @ username c @ '' 0 * :'' @ ircname c]"

text \<open>
  \<open>connect(server, port, nickname, password, username, ircname, ...)\<close>: it hangs up a
  connection that is up, assigns the attributes, opens the socket, sets \<open>connected\<close>, reads
  \<open>self.irclibobj.fn_to_add_socket\<close> and queues the login. A socket is set from here to
  the end, so that none of the three \<open>send_raw\<close> raises.
\<close>

definition connect ::
  "world \<Rightarrow> string \<Rightarrow> nat \<Rightarrow> string \<Rightarrow> string option \<Rightarrow> string \<Rightarrow> string \<Rightarrow> ServerConnection
   \<Rightarrow> ServerConnection \<times> error option" where
  "connect w srv prt nick pw user irc c =
     (case (if connected c then disconnect w ''Changing servers'' c else (c, None)) of
        (c0, Some e) \<Rightarrow> (c0, Some e)
      | (c0, None) \<Rightarrow>
          (let c1 = c0\<lparr>previous_buffer := [], real_server_name := [], real_nickname := nick,
                       server := srv, port := prt, nickname' := nick,
                       username := (if user \<noteq> [] then user else nick),
                       ircname := (if irc \<noteq> [] then irc else nick),
                       password := pw, featurelist := []\<rparr>
           in case network w of
                None \<Rightarrow> (c1\<lparr>socket := None\<rparr>, Some ServerConnectionError)
              | Some k \<Rightarrow>
                  (let c2 = c1\<lparr>socket := Some k, out := out c1 @ [Opened], connected := True\<rparr>
                   in case fn_to_add_socket w of
                        Unset \<Rightarrow> (c2, Some AttributeError)
                      | Bound b \<Rightarrow>
                          (c2\<lparr>message_queue := message_queue c2 @ login_lines c2\<rparr>, None))))"

definition reconnect :: "world \<Rightarrow> string \<Rightarrow> ServerConnection \<Rightarrow> ServerConnection \<times> error option" where
  "reconnect w msg c =
     (case disconnect w msg c of
        (c1, Some e) \<Rightarrow> (c1, Some e)
      | (c1, None) \<Rightarrow>
          connect w (server c1) (port c1) (nickname' c1) (password c1) (username c1) (ircname c1) c1)"

section \<open>session.py: the watchdog of the poll loop\<close>

text \<open>
  The loop of \<open>process_once\<close> over the connections, behind the reading of the sockets:
  \<open>now\<close> is \<open>_current_time\<close>. An exception leaves the loop and \<open>process_once\<close>.
\<close>

definition check_ping :: "world \<Rightarrow> real \<Rightarrow> ServerConnection \<Rightarrow> ServerConnection \<times> error option" where
  "check_ping w now c =
     (if now - last_ping c \<ge> 260 then reconnect w ''Ping timeout: 260 seconds'' c else (c, None))"

fun watchdog :: "world \<Rightarrow> real \<Rightarrow> ServerConnection list \<Rightarrow> ServerConnection list \<times> error option" where
  "watchdog w now [] = ([], None)"
| "watchdog w now (c # cs) =
     (case check_ping w now c of
        (c', Some e) \<Rightarrow> (c' # cs, Some e)
      | (c', None) \<Rightarrow> (let (cs', r) = watchdog w now cs in (c' # cs', r)))"

section \<open>session.py: the rate-limited sending\<close>

text \<open>
  \<open>len(message.encode('utf-8'))\<close> for a string whose characters are code points below
  256: one byte for an ASCII character, two for another.
\<close>

definition utf8_len :: "string \<Rightarrow> nat" where
  "utf8_len s = sum_list (map (\<lambda>c. if (of_char c :: nat) < 128 then 1 else 2) s)"

text \<open>
  The head of the loop body of \<open>send_once\<close> for one connection: the window grows by the
  time since the last pass (the two readings of the clock in the source are taken as the
  one reading \<open>now\<close>), and at 1.3 seconds the window and the byte counter are set to zero.
\<close>

definition advance_window :: "real \<Rightarrow> ServerConnection \<Rightarrow> ServerConnection" where
  "advance_window now c =
     (let delta = now - last_time c;
          c1 = c\<lparr>last_time := now, send_time := send_time c + delta\<rparr>
      in if send_time c1 \<ge> 13 / 10 then c1\<lparr>send_time := 0, sent_bytes := 0\<rparr> else c1)"

text \<open>
  The \<open>while\<close> loop of \<open>send_once\<close>: while the queue is not empty and the counter is at
  most 2500, the head of the queue is taken and written with \<open>send_raw_instant\<close>; on
  \<open>AttributeError\<close> the connection is reconnected; then the counter grows by the encoded
  length of the message. Any other exception leaves \<open>send_once\<close>.
\<close>

function drain :: "world \<Rightarrow> ServerConnection \<Rightarrow> ServerConnection \<times> error option" where
  "drain w c =
     (case message_queue c of
        [] \<Rightarrow> (c, None)
      | m # q \<Rightarrow>
          if sent_bytes c \<le> 2500 then
            (case send_raw_instant w m (c\<lparr>message_queue := q\<rparr>) of
               (c2, None) \<Rightarrow> drain w (c2\<lparr>sent_bytes := sent_bytes c2 + utf8_len m\<rparr>)
             | (c2, Some AttributeError) \<Rightarrow>
                 (case reconnect w [] c2 of
                    (c3, None) \<Rightarrow> drain w (c3\<lparr>sent_bytes := sent_bytes c3 + utf8_len m\<rparr>)
                  | (c3, Some e) \<Rightarrow> (c3, Some e))
             | (c2, Some e) \<Rightarrow> (c2, Some e))
          else (c, None))"
  by pat_completeness auto
lemma utf8_len_append: "utf8_len (a @ b) = utf8_len a + utf8_len b"
  by (simp add: utf8_len_def)

lemma utf8_len_Cons: "0 < utf8_len (x # xs)"
  by (simp add: utf8_len_def)

lemma emit_keeps: "message_queue (fst (emit w ev c)) = message_queue c"
  "sent_bytes (fst (emit w ev c)) = sent_bytes c"
  by (simp_all add: emit_def)

lemma disconnect_keeps:
  "message_queue (fst (disconnect w msg c)) = message_queue c"
  "sent_bytes (fst (disconnect w msg c)) = sent_bytes c"
  by (auto simp: disconnect_def transmit_def emit_def Let_def split: option.splits sum.splits error.splits)

lemma send_raw_instant_keeps:
  "message_queue (fst (send_raw_instant w s c)) = message_queue c"
  "sent_bytes (fst (send_raw_instant w s c)) = sent_bytes c"
  by (auto simp: send_raw_instant_def transmit_def disconnect_keeps split: option.splits sum.splits error.splits)

lemma login_lines_bound:
  "length (login_lines c) \<le> 3 \<and> (\<forall>l \<in> set (login_lines c). 0 < utf8_len l)"
  by (auto simp: login_lines_def utf8_len_Cons split: option.splits)

lemma login_lines_cong:
  "password c' = password c \<Longrightarrow> nickname' c' = nickname' c \<Longrightarrow> username c' = username c \<Longrightarrow>
   ircname c' = ircname c \<Longrightarrow> login_lines c' = login_lines c"
  by (simp add: login_lines_def)

lemma connect_queue:
  assumes "connect w srv prt nick pw user irc c = (c', None)"
  shows "sent_bytes c' = sent_bytes c \<and>
         (\<exists>L. message_queue c' = message_queue c @ L \<and> length L \<le> 3 \<and> (\<forall>l \<in> set L. 0 < utf8_len l))"
proof -
  obtain c0 r where d: "(if connected c then disconnect w ''Changing servers'' c else (c, None)) = (c0, r)"
    by (cases "if connected c then disconnect w ''Changing servers'' c else (c, None)")
  have k: "message_queue c0 = message_queue c" "sent_bytes c0 = sent_bytes c"
    using d disconnect_keeps [of w "''Changing servers''" c] by (auto split: if_splits)
  show ?thesis
    using assms d k login_lines_bound
    by (auto simp: connect_def Let_def split: option.splits attr.splits)
qed

lemma reconnect_queue:
  assumes "reconnect w msg c = (c', None)"
  shows "sent_bytes c' = sent_bytes c \<and>
         (\<exists>L. message_queue c' = message_queue c @ L \<and> length L \<le> 3 \<and> (\<forall>l \<in> set L. 0 < utf8_len l))"
proof -
  obtain c1 r where d: "disconnect w msg c = (c1, r)" by (cases "disconnect w msg c")
  have k: "message_queue c1 = message_queue c" "sent_bytes c1 = sent_bytes c"
    using d disconnect_keeps [of w msg c] by auto
  have "connect w (server c1) (port c1) (nickname' c1) (password c1) (username c1) (ircname c1) c1 = (c', None)"
    using assms d by (auto simp: reconnect_def split: option.splits)
  from connect_queue [OF this] show ?thesis using k by simp
qed

text \<open>
  The loop ends: a pass takes one message from the queue; a reconnection puts at most
  three lines back, none of them empty, and the counter has grown by then.
\<close>

definition zero_count :: "string list \<Rightarrow> nat" where
  "zero_count q = length (filter (\<lambda>m. utf8_len m = 0) q)"

lemma zero_count_append_login:
  "\<forall>l \<in> set L. 0 < utf8_len l \<Longrightarrow> zero_count (q @ L) = zero_count q"
  by (induction L rule: rev_induct) (auto simp: zero_count_def)

lemma drain_measure:
  assumes "message_queue c = m # q" "sent_bytes c \<le> 2500"
    and "sent_bytes x = sent_bytes c" "message_queue x = q @ L" "length L \<le> 3"
    and "\<forall>l \<in> set L. 0 < utf8_len l"
  shows "((w, x\<lparr>sent_bytes := sent_bytes x + utf8_len m\<rparr>), w, c)
           \<in> measures [\<lambda>(w, c). zero_count (message_queue c),
                        \<lambda>(w, c). length (message_queue c) + 4 * (2501 - sent_bytes c)]"
proof (cases "utf8_len m = 0")
  case True
  have "zero_count (q @ L) = zero_count q" using assms(6) by (rule zero_count_append_login)
  moreover have "zero_count (m # q) = Suc (zero_count q)" using True by (simp add: zero_count_def)
  ultimately show ?thesis using assms(1,4) by simp
next
  case False
  have z: "zero_count (q @ L) = zero_count q" using assms(6) by (rule zero_count_append_login)
  have z2: "zero_count (m # q) = zero_count q" using False by (simp add: zero_count_def)
  have "length (q @ L) + 4 * (2501 - (sent_bytes c + utf8_len m))
          < length (m # q) + 4 * (2501 - sent_bytes c)"
    using False assms(2,5) by simp
  then show ?thesis using assms(1,3,4) z z2 by simp
qed

lemma drain_step1:
  assumes "message_queue c = m # q" "sent_bytes c \<le> 2500"
    and "(x, y) = send_raw_instant w m (c\<lparr>message_queue := q\<rparr>)"
  shows "((w, x\<lparr>sent_bytes := sent_bytes x + utf8_len m\<rparr>), w, c)
           \<in> measures [\<lambda>(w, c). zero_count (message_queue c),
                        \<lambda>(w, c). length (message_queue c) + 4 * (2501 - sent_bytes c)]"
proof -
  have x: "x = fst (send_raw_instant w m (c\<lparr>message_queue := q\<rparr>))"
    using assms(3) by (metis fst_conv)
  have "message_queue x = q @ []" "sent_bytes x = sent_bytes c"
    by (simp_all add: x send_raw_instant_keeps)
  then show ?thesis using assms(1,2) by (intro drain_measure [where L = "[]" and q = q]) simp_all
qed

lemma drain_step2:
  assumes "message_queue c = m # q" "sent_bytes c \<le> 2500"
    and "(x, y) = send_raw_instant w m (c\<lparr>message_queue := q\<rparr>)"
    and "(xa, None) = reconnect w [] x"
  shows "((w, xa\<lparr>sent_bytes := sent_bytes xa + utf8_len m\<rparr>), w, c)
           \<in> measures [\<lambda>(w, c). zero_count (message_queue c),
                        \<lambda>(w, c). length (message_queue c) + 4 * (2501 - sent_bytes c)]"
proof -
  have x: "x = fst (send_raw_instant w m (c\<lparr>message_queue := q\<rparr>))"
    using assms(3) by (metis fst_conv)
  have k: "message_queue x = q" "sent_bytes x = sent_bytes c"
    by (simp_all add: x send_raw_instant_keeps)
  have "reconnect w [] x = (xa, None)" using assms(4) by simp
  from reconnect_queue [OF this] obtain L where
    L: "sent_bytes xa = sent_bytes x" "message_queue xa = message_queue x @ L" "length L \<le> 3"
       "\<forall>l \<in> set L. 0 < utf8_len l"
    by blast
  show ?thesis using assms(1,2) k L
    by (intro drain_measure [where L = L and q = q]) simp_all
qed

termination drain
  apply (relation "measures [\<lambda>(w, c). zero_count (message_queue c),
                           \<lambda>(w, c). length (message_queue c) + 4 * (2501 - sent_bytes c)]")
    apply simp
   apply (erule (2) drain_step1)
  apply (rule drain_step2; simp)
  done

declare drain.simps [simp del]

definition send_once_conn :: "world \<Rightarrow> real \<Rightarrow> ServerConnection \<Rightarrow> ServerConnection \<times> error option" where
  "send_once_conn w now c = drain w (advance_window now c)"

fun send_once :: "world \<Rightarrow> real \<Rightarrow> ServerConnection list \<Rightarrow> ServerConnection list \<times> error option" where
  "send_once w now [] = ([], None)"
| "send_once w now (c # cs) =
     (case send_once_conn w now c of
        (c', Some e) \<Rightarrow> (c' # cs, Some e)
      | (c', None) \<Rightarrow> (let (cs', r) = send_once w now cs in (c' # cs', r)))"

section \<open>connection.py: process_data\<close>

text \<open>
  The table \<open>numeric_events\<close> of connection.py, from the three digits of a numeric reply
  to its name.
\<close>

definition numeric_events :: "(string \<times> string) list" where
  "numeric_events =
    [(''001'', ''welcome''), (''002'', ''yourhost''), (''003'', ''created''),
     (''004'', ''myinfo''), (''005'', ''featurelist''), (''200'', ''tracelink''),
     (''201'', ''traceconnecting''), (''202'', ''tracehandshake''),
     (''203'', ''traceunknown''), (''204'', ''traceoperator''),
     (''205'', ''traceuser''), (''206'', ''traceserver''), (''207'', ''traceservice''),
     (''208'', ''tracenewtype''), (''209'', ''traceclass''),
     (''210'', ''tracereconnect''), (''211'', ''statslinkinfo''),
     (''212'', ''statscommands''), (''213'', ''statscline''), (''214'', ''statsnline''),
     (''215'', ''statsiline''), (''216'', ''statskline''), (''217'', ''statsqline''),
     (''218'', ''statsyline''), (''219'', ''endofstats''), (''221'', ''umodeis''),
     (''231'', ''serviceinfo''), (''232'', ''endofservices''), (''233'', ''service''),
     (''234'', ''servlist''), (''235'', ''servlistend''), (''241'', ''statslline''),
     (''242'', ''statsuptime''), (''243'', ''statsoline''), (''244'', ''statshline''),
     (''250'', ''luserconns''), (''251'', ''luserclient''), (''252'', ''luserop''),
     (''253'', ''luserunknown''), (''254'', ''luserchannels''), (''255'', ''luserme''),
     (''256'', ''adminme''), (''257'', ''adminloc1''), (''258'', ''adminloc2''),
     (''259'', ''adminemail''), (''261'', ''tracelog''), (''262'', ''endoftrace''),
     (''263'', ''tryagain''), (''265'', ''n_local''), (''266'', ''n_global''),
     (''300'', ''none''), (''301'', ''away''), (''302'', ''userhost''),
     (''303'', ''ison''), (''305'', ''unaway''), (''306'', ''nowaway''),
     (''307'', ''whoisidentified''), (''311'', ''whoisuser''),
     (''312'', ''whoisserver''), (''313'', ''whoisoperator''),
     (''314'', ''whowasuser''), (''315'', ''endofwho''), (''316'', ''whoischanop''),
     (''317'', ''whoisidle''), (''318'', ''endofwhois''), (''319'', ''whoischannels''),
     (''321'', ''liststart''), (''322'', ''list''), (''323'', ''listend''),
     (''324'', ''channelmodeis''), (''329'', ''channelcreate''), (''331'', ''notopic''),
     (''332'', ''currenttopic''), (''333'', ''topicinfo''), (''341'', ''inviting''),
     (''342'', ''summoning''), (''346'', ''invitelist''),
     (''347'', ''endofinvitelist''), (''348'', ''exceptlist''),
     (''349'', ''endofexceptlist''), (''351'', ''version''), (''352'', ''whoreply''),
     (''353'', ''namreply''), (''361'', ''killdone''), (''362'', ''closing''),
     (''363'', ''closeend''), (''364'', ''links''), (''365'', ''endoflinks''),
     (''366'', ''endofnames''), (''367'', ''banlist''), (''368'', ''endofbanlist''),
     (''369'', ''endofwhowas''), (''371'', ''info''), (''372'', ''motd''),
     (''373'', ''infostart''), (''374'', ''endofinfo''), (''375'', ''motdstart''),
     (''376'', ''endofmotd''), (''377'', ''motd2''), (''381'', ''youreoper''),
     (''382'', ''rehashing''), (''384'', ''myportis''), (''391'', ''time''),
     (''392'', ''usersstart''), (''393'', ''users''), (''394'', ''endofusers''),
     (''395'', ''nousers''), (''401'', ''nosuchnick''), (''402'', ''nosuchserver''),
     (''403'', ''nosuchchannel''), (''404'', ''cannotsendtochan''),
     (''405'', ''toomanychannels''), (''406'', ''wasnosuchnick''),
     (''407'', ''toomanytargets''), (''409'', ''noorigin''), (''411'', ''norecipient''),
     (''412'', ''notexttosend''), (''413'', ''notoplevel''),
     (''414'', ''wildtoplevel''), (''421'', ''unknowncommand''), (''422'', ''nomotd''),
     (''423'', ''noadmininfo''), (''424'', ''fileerror''),
     (''431'', ''nonicknamegiven''), (''432'', ''erroneusnickname''),
     (''433'', ''nicknameinuse''), (''436'', ''nickcollision''),
     (''437'', ''unavailresource''), (''441'', ''usernotinchannel''),
     (''442'', ''notonchannel''), (''443'', ''useronchannel''), (''444'', ''nologin''),
     (''445'', ''summondisabled''), (''446'', ''usersdisabled''),
     (''451'', ''notregistered''), (''461'', ''needmoreparams''),
     (''462'', ''alreadyregistered''), (''463'', ''nopermforhost''),
     (''464'', ''passwdmismatch''), (''465'', ''yourebannedcreep''),
     (''466'', ''youwillbebanned''), (''467'', ''keyset''),
     (''471'', ''channelisfull''), (''472'', ''unknownmode''),
     (''473'', ''inviteonlychan''), (''474'', ''bannedfromchan''),
     (''475'', ''badchannelkey''), (''476'', ''badchanmask''),
     (''477'', ''nochanmodes''), (''478'', ''banlistfull''),
     (''481'', ''noprivileges''), (''482'', ''chanoprivsneeded''),
     (''483'', ''cantkillserver''), (''484'', ''restricted''),
     (''485'', ''uniqopprivsneeded''), (''491'', ''nooperhost''),
     (''492'', ''noservicehost''), (''501'', ''umodeunknownflag''),
     (''502'', ''usersdontmatch'')]"

definition translate_numeric :: "string \<Rightarrow> string" where
  "translate_numeric comm =
     (case map_of numeric_events comm of None \<Rightarrow> comm | Some n \<Rightarrow> n)"

text \<open>
  The functions of the module \<open>utils\<close> that \<open>process_data\<close> calls; the module is not among
  the sources. \<open>_linesep_regexp.split\<close>, \<open>_ctcp_dequote\<close> (its result a list of plain
  strings and of tuples, the tagged segments) and \<open>is_channel\<close> are parameters of the
  model.
\<close>

datatype msgpart = Plain string | Tagged "string list"

record utils =
  linesep_split :: "string \<Rightarrow> string list"
  ctcp_dequote :: "string \<Rightarrow> msgpart list"
  is_channel' :: "string \<Rightarrow> bool"

text \<open>
  Modelled from the spec: the line splitter \<open>utils._linesep_regexp\<close>. The spec says that
  the parser splits the buffered bytes on line terminators and keeps the last, incomplete
  line: the model splits at every line feed, drops a carriage return before it, and ends
  with the text behind the last line feed.
\<close>

fun split_lines_acc :: "string \<Rightarrow> string \<Rightarrow> string list" where
  "split_lines_acc cur [] = [cur]"
| "split_lines_acc cur (c # cs) =
     (if c = CHR 0x0A
      then (if cur \<noteq> [] \<and> last cur = CHR 0x0D then butlast cur else cur) # split_lines_acc [] cs
      else split_lines_acc (cur @ [c]) cs)"

definition split_lines :: "string \<Rightarrow> string list" where
  "split_lines s = split_lines_acc [] s"

text \<open>
  The match of \<open>_rfc_1459_command_regexp\<close>,
  \<^verbatim>\<open>^(:(?P<prefix>[^ ]+) +)?(?P<command>[^ ]+)( *(?P<argument> .+))?\<close>,
  at the start of a line: the groups \<open>prefix\<close>, \<open>command\<close> and \<open>argument\<close>, or no match.
  The prefix group matches when the line starts with a colon, a run of characters other
  than the space, at least one space and then a character other than the space; the
  command is the longest run of characters other than the space. Behind the command, with
  \<open>k\<close> spaces before the next character: if there is a space and a next character (not a
  line feed, which the dot does not match), the argument is one space and the rest of the
  line; otherwise, with two spaces or more, the argument is the last two spaces;
  otherwise the group does not match.
\<close>

definition arg_group :: "string \<Rightarrow> string option" where
  "arg_group t =
     (let k = length (takeWhile (\<lambda>c. c = CHR '' '') t)
      in case drop k t of
           [] \<Rightarrow> if 2 \<le> k then Some [CHR '' '', CHR '' ''] else None
         | x # xs \<Rightarrow>
             if 1 \<le> k \<and> x \<noteq> CHR 0x0A then Some (CHR '' '' # takeWhile (\<lambda>c. c \<noteq> CHR 0x0A) (x # xs))
             else if 2 \<le> k then Some [CHR '' '', CHR '' '']
             else None)"

definition match_command :: "string \<Rightarrow> (string \<times> string option) option" where
  "match_command s =
     (let cmd = takeWhile (\<lambda>c. c \<noteq> CHR '' '') s
      in if cmd = [] then None else Some (cmd, arg_group (dropWhile (\<lambda>c. c \<noteq> CHR '' '') s)))"

definition rfc_1459_command_match :: "string \<Rightarrow> (string option \<times> string \<times> string option) option" where
  "rfc_1459_command_match line =
     (let plain = map_option (\<lambda>(cmd, a). (None, cmd, a)) (match_command line)
      in case line of
           [] \<Rightarrow> None
         | c # r \<Rightarrow>
             if c = CHR '':'' then
               (let p = takeWhile (\<lambda>c. c \<noteq> CHR '' '') r;
                    r1 = dropWhile (\<lambda>c. c \<noteq> CHR '' '') r;
                    r2 = dropWhile (\<lambda>c. c = CHR '' '') r1
                in if p \<noteq> [] \<and> r1 \<noteq> [] then
                     (case match_command r2 of
                        Some (cmd, a) \<Rightarrow> Some (Some p, cmd, a)
                      | None \<Rightarrow> plain)
                   else plain)
             else plain)"

text \<open>
  \<open>m.group("argument").split(" :", 1)\<close>, then \<open>a[0].split()\<close> with \<open>a[1]\<close> appended
  when there is one.
\<close>

fun split_sp_colon :: "string \<Rightarrow> string \<times> string option" where
  "split_sp_colon [] = ([], None)"
| "split_sp_colon [c] = ([c], None)"
| "split_sp_colon (c # d # cs) =
     (if c = CHR '' '' \<and> d = CHR '':'' then ([], Some cs)
      else (case split_sp_colon (d # cs) of (a, b) \<Rightarrow> (c # a, b)))"

definition split_args :: "string \<Rightarrow> string list" where
  "split_args a =
     (case split_sp_colon a of (h, t) \<Rightarrow> py_split h @ (case t of None \<Rightarrow> [] | Some x \<Rightarrow> [x]))"

text \<open>
  A subscript on \<open>arguments\<close>, which is null when the line has no argument group:
  \<open>TypeError\<close> on null, \<open>IndexError\<close> behind the end of the list.
\<close>

definition sub :: "'a list option \<Rightarrow> nat \<Rightarrow> error + 'a" where
  "sub xs i = (case xs of None \<Rightarrow> Inl TypeError | Some l \<Rightarrow> arg l i)"

text \<open>
  \<open>self.sqlite\<close>: \<open>ServerConnection.__init__\<close> does not assign the attribute (the
  assignment is a comment) and no other statement of the sources does, so that reading it
  raises \<open>AttributeError\<close>. Every statement of \<open>process_data\<close> that starts with
  \<open>self.sqlite\<close> is this exception in the model; where the right-hand side of an
  assignment to \<open>self.sqlite.x\<close> is evaluated first, it is noted there.
\<close>

definition self_sqlite :: "error + unit" where
  "self_sqlite = getattr Unset"

definition raise_of :: "error + unit \<Rightarrow> error" where
  "raise_of r = (case r of Inl e \<Rightarrow> e | Inr u \<Rightarrow> AttributeError)"

definition raw_event :: "ServerConnection \<Rightarrow> string \<Rightarrow> event" where
  "raw_event c line =
     \<lparr>eventtype = ''all_raw_messages'', source = Some (real_server_name c), target = None,
      argument = [line]\<rparr>"

text \<open>The feature list of numeric 005: \<open>KEY=VALUE\<close> or \<open>KEY\<close>, the last write wins.\<close>

fun split_char_acc :: "char \<Rightarrow> string \<Rightarrow> string \<Rightarrow> string list" where
  "split_char_acc sep cur [] = [cur]"
| "split_char_acc sep cur (c # cs) =
     (if c = sep then cur # split_char_acc sep [] cs else split_char_acc sep (cur @ [c]) cs)"

definition dict_set :: "string \<Rightarrow> string \<Rightarrow> (string \<times> string) list \<Rightarrow> (string \<times> string) list" where
  "dict_set k v d = (k, v) # filter (\<lambda>(k', x). k' \<noteq> k) d"

definition add_feature :: "(string \<times> string) list \<Rightarrow> string \<Rightarrow> (string \<times> string) list" where
  "add_feature d feature =
     (case split_char_acc (CHR ''='') [] feature of
        [k, v] \<Rightarrow> dict_set k v d
      | [k] \<Rightarrow> dict_set k [] d
      | _ \<Rightarrow> d)"

text \<open>
  The statements on \<open>nick\<close> and \<open>welcome\<close> before the branch on the command.
\<close>

definition nick_welcome_step ::
  "string option \<Rightarrow> string \<Rightarrow> string list option \<Rightarrow> ServerConnection \<Rightarrow> ServerConnection \<times> error option" where
  "nick_welcome_step pfx comm arguments c =
     (if comm = ''nick'' then
        (case nm_to_n pfx of
           Inl e \<Rightarrow> (c, Some e)
         | Inr old_nick \<Rightarrow>
             if old_nick = real_nickname c then
               (case sub arguments 0 of
                  Inl e \<Rightarrow> (c, Some e)
                | Inr a \<Rightarrow> (c\<lparr>real_nickname := a\<rparr>, Some (raise_of self_sqlite)))
             else (c, Some (raise_of self_sqlite)))
      else if comm = ''welcome'' then
        (case sub arguments 0 of
           Inl e \<Rightarrow> (c, Some e)
         | Inr a \<Rightarrow> (c\<lparr>real_nickname := a\<rparr>, None))
      else (c, None))"

text \<open>
  The loop over the segments of a \<open>privmsg\<close> or \<open>notice\<close>. The variable \<open>command\<close> is
  assigned in the loop at a tagged segment (\<open>segment_command\<close>) and keeps its value for
  the segments that follow. A tagged segment gives a \<open>ctcp\<close> or \<open>ctcpreply\<close> Event and,
  for the CTCP command \<open>ACTION\<close>, an \<open>action\<close> Event; a plain segment gives one Event.
\<close>

definition segment_command :: "string \<Rightarrow> msgpart \<Rightarrow> string" where
  "segment_command comm part =
     (case part of
        Plain m \<Rightarrow> comm
      | Tagged m \<Rightarrow> if comm \<in> {''privmsg'', ''pubmsg''} then ''ctcp'' else ''ctcpreply'')"

definition ctcp_segment ::
  "world \<Rightarrow> string option \<Rightarrow> string \<Rightarrow> string \<Rightarrow> msgpart \<Rightarrow> ServerConnection
   \<Rightarrow> ServerConnection \<times> error option" where
  "ctcp_segment w pfx tgt comm part c =
     (case part of
        Plain m \<Rightarrow>
          emit w \<lparr>eventtype = comm, source = pfx, target = Some tgt, argument = [m]\<rparr> c
      | Tagged m \<Rightarrow>
          (case emit w \<lparr>eventtype = segment_command comm part, source = pfx, target = Some tgt,
                         argument = m\<rparr> c of
             (c1, Some e) \<Rightarrow> (c1, Some e)
           | (c1, None) \<Rightarrow>
               if segment_command comm part = ''ctcp'' then
                 (case m of
                    [] \<Rightarrow> (c1, Some IndexError)
                  | v # rest \<Rightarrow>
                      if v = ''ACTION''
                      then emit w \<lparr>eventtype = ''action'', source = pfx, target = Some tgt,
                                    argument = rest\<rparr> c1
                      else (c1, None))
               else (c1, None)))"

fun ctcp_loop ::
  "world \<Rightarrow> string option \<Rightarrow> string \<Rightarrow> string \<Rightarrow> msgpart list \<Rightarrow> ServerConnection
   \<Rightarrow> ServerConnection \<times> error option" where
  "ctcp_loop w pfx tgt comm [] c = (c, None)"
| "ctcp_loop w pfx tgt comm (part # ms) c =
     (case ctcp_segment w pfx tgt comm part c of
        (c1, Some e) \<Rightarrow> (c1, Some e)
      | (c1, None) \<Rightarrow> ctcp_loop w pfx tgt (segment_command comm part) ms c1)"

definition handle_message ::
  "world \<Rightarrow> utils \<Rightarrow> string option \<Rightarrow> string \<Rightarrow> string list option \<Rightarrow> ServerConnection
   \<Rightarrow> ServerConnection \<times> error option" where
  "handle_message w u pfx comm arguments c =
     (case sub arguments 0 of
        Inl e \<Rightarrow> (c, Some e)
      | Inr tgt \<Rightarrow>
          (case sub arguments 1 of
             Inl e \<Rightarrow> (c, Some e)
           | Inr msg \<Rightarrow>
               ctcp_loop w pfx tgt
                 (if comm = ''privmsg''
                  then (if is_channel' u tgt then ''pubmsg'' else comm)
                  else (if is_channel' u tgt then ''pubnotice'' else ''privnotice''))
                 (ctcp_dequote u msg) c))"

text \<open>
  The branch of every other command. The chain on the tracker: \<open>join\<close>, \<open>part\<close>, \<open>kick\<close>,
  \<open>topic\<close>, \<open>currenttopic\<close> and \<open>notopic\<close> read \<open>self.sqlite\<close> first; \<open>endofmotd\<close> reads
  it as the target of an assignment after the right-hand side, which reads the feature
  list (and, for \<open>PREFIX\<close>, the groups of a match, an \<open>AttributeError\<close> as well when there
  is no match); \<open>namreply\<close> reads two arguments and then \<open>self.sqlite\<close> in the first
  pass of its loop, whatever the names; \<open>mode\<close> reads the first character of the first
  argument and then \<open>self.sqlite\<close> in the first pass of its loop.
\<close>

definition tracker_step ::
  "string \<Rightarrow> string list \<Rightarrow> ServerConnection \<Rightarrow> ServerConnection \<times> error option" where
  "tracker_step comm args c =
     (if comm \<in> {''join'', ''part''} then (c, Some (raise_of self_sqlite))
      else if comm = ''kick'' then (c, Some (raise_of self_sqlite))
      else if comm = ''topic'' then (c, Some (raise_of self_sqlite))
      else if comm = ''currenttopic'' then (c, Some (raise_of self_sqlite))
      else if comm = ''notopic'' then (c, Some (raise_of self_sqlite))
      else if comm = ''featurelist'' then (c\<lparr>featurelist := foldl add_feature (featurelist c) args\<rparr>, None)
      else if comm = ''endofmotd'' then
        (if map_of (featurelist c) ''CHANMODES'' \<noteq> None then (c, Some (raise_of self_sqlite))
         else if map_of (featurelist c) ''PREFIX'' \<noteq> None then (c, Some (raise_of self_sqlite))
         else (c, None))
      else if comm = ''namreply'' then
        (case arg args 1 of
           Inl e \<Rightarrow> (c, Some e)
         | Inr chan \<Rightarrow>
             (case arg args 2 of
                Inl e \<Rightarrow> (c, Some e)
              | Inr names \<Rightarrow> (c, Some (raise_of self_sqlite))))
      else (c, None))"

definition mode_step :: "string list \<Rightarrow> ServerConnection \<Rightarrow> ServerConnection \<times> error option" where
  "mode_step args c =
     (case arg args 0 of
        Inl e \<Rightarrow> (c, Some e)
      | Inr a \<Rightarrow>
          (case arg a 0 of
             Inl e \<Rightarrow> (c, Some e)
           | Inr operator \<Rightarrow> (c, Some (raise_of self_sqlite))))"

definition handle_other ::
  "world \<Rightarrow> utils \<Rightarrow> string option \<Rightarrow> string \<Rightarrow> string list option \<Rightarrow> ServerConnection
   \<Rightarrow> ServerConnection \<times> error option" where
  "handle_other w u pfx comm arguments c =
     (case sub arguments 0 of
        Inl e \<Rightarrow> (c, Some e)
      | Inr a0 \<Rightarrow>
          if comm = ''quit'' then (c, Some (raise_of self_sqlite))
          else
            (let args = (if comm = ''ping'' then (case arguments of Some l \<Rightarrow> l | None \<Rightarrow> [])
                         else (case arguments of Some l \<Rightarrow> drop 1 l | None \<Rightarrow> []))
             in case tracker_step comm args c of
                  (c1, Some e) \<Rightarrow> (c1, Some e)
                | (c1, None) \<Rightarrow>
                    if comm = ''mode'' then mode_step args c1
                    else emit w \<lparr>eventtype = comm, source = pfx, target = Some a0,
                                  argument = args\<rparr> c1))"

text \<open>
  The body of the loop of \<open>process_data\<close> for one decoded line, and the loop. An
  exception that a line raises leaves the loop and \<open>process_data\<close>: the lines behind it
  are dropped.
\<close>

definition process_line ::
  "world \<Rightarrow> utils \<Rightarrow> ServerConnection \<Rightarrow> string \<Rightarrow> ServerConnection \<times> error option" where
  "process_line w u c line =
     (if line = [] then (c, None)
      else
        (case emit w (raw_event c line) c of
           (c1, Some e) \<Rightarrow> (c1, Some e)
         | (c1, None) \<Rightarrow>
             (case rfc_1459_command_match line of
                None \<Rightarrow> (c1, Some AttributeError)
              | Some (pfx, cmd, argstr) \<Rightarrow>
                  (let c2 = (case pfx of
                               None \<Rightarrow> c1
                             | Some p \<Rightarrow> if real_server_name c1 = [] then c1\<lparr>real_server_name := p\<rparr> else c1);
                       arguments = map_option split_args argstr;
                       comm = translate_numeric (lower cmd)
                   in case nick_welcome_step pfx comm arguments c2 of
                        (c3, Some e) \<Rightarrow> (c3, Some e)
                      | (c3, None) \<Rightarrow>
                          if comm \<in> {''privmsg'', ''notice''}
                          then handle_message w u pfx comm arguments c3
                          else handle_other w u pfx comm arguments c3))))"

fun process_lines ::
  "world \<Rightarrow> utils \<Rightarrow> ServerConnection \<Rightarrow> string list \<Rightarrow> ServerConnection \<times> error option" where
  "process_lines w u c [] = (c, None)"
| "process_lines w u c (l # ls) =
     (case process_line w u c l of
        (c', Some e) \<Rightarrow> (c', Some e)
      | (c', None) \<Rightarrow> process_lines w u c' ls)"

text \<open>
  \<open>process_data\<close> at the time \<open>now\<close>. \<open>recv\<close> is what reading the socket gives:
  \<open>socket.error\<close> or the data (no data when the peer has closed). The buffer is a text
  string and the data are bytes: joining them decodes the data as ASCII, which raises on
  a byte above 127; so the lines are ASCII text, on which the later \<open>decode\<close> with
  \<open>replace\<close> changes nothing (for an encoding that extends ASCII).
\<close>

datatype recv = RecvError | Data string

definition process_data ::
  "world \<Rightarrow> utils \<Rightarrow> real \<Rightarrow> recv \<Rightarrow> ServerConnection \<Rightarrow> ServerConnection \<times> error option" where
  "process_data w u now r c =
     (case socket c of
        None \<Rightarrow> (c, Some AttributeError)
      | Some k \<Rightarrow>
          (case r of
             RecvError \<Rightarrow> disconnect w ''Connection reset by peer'' c
           | Data new_data \<Rightarrow>
               if new_data = [] then disconnect w ''Connection reset by peer'' c
               else
                 (let c1 = c\<lparr>last_ping := now\<rparr>
                  in if \<exists>b \<in> set new_data. 128 \<le> (of_char b :: nat) then (c1, Some UnicodeDecodeError)
                     else
                       (case rev (linesep_split u (previous_buffer c1 @ new_data)) of
                          [] \<Rightarrow> (c1, Some IndexError)
                        | rest # ls \<Rightarrow> process_lines w u (c1\<lparr>previous_buffer := rest\<rparr>) (rev ls)))))"

text \<open>
  A later state of a connection has done all that an earlier one has, and maybe more.
\<close>

definition grows :: "ServerConnection \<Rightarrow> ServerConnection \<Rightarrow> bool" where
  "grows c c' = (\<exists>r. out c' = out c @ r)"

section \<open>Lemmas on the binary insertion\<close>

lemma bisect_right_stop: "\<not> lo < hi \<Longrightarrow> bisect_right a x lo hi = lo"
  by (subst bisect_right.simps) simp

lemma bisect_right_left:
  "lo < hi \<Longrightarrow> x < a ! ((lo + hi) div 2) \<Longrightarrow>
   bisect_right a x lo hi = bisect_right a x lo ((lo + hi) div 2)"
  by (subst bisect_right.simps) (simp add: Let_def)

lemma bisect_right_right:
  "lo < hi \<Longrightarrow> \<not> x < a ! ((lo + hi) div 2) \<Longrightarrow>
   bisect_right a x lo hi = bisect_right a x ((lo + hi) div 2 + 1) hi"
  by (subst bisect_right.simps) (simp add: Let_def)

lemma bisect_right_split:
  "sorted a \<Longrightarrow> lo \<le> hi \<Longrightarrow> hi \<le> length a \<Longrightarrow>
   (\<forall>i < lo. a ! i \<le> x) \<Longrightarrow> (\<forall>i. hi \<le> i \<and> i < length a \<longrightarrow> x < a ! i) \<Longrightarrow>
   bisect_right a x lo hi \<le> length a \<and>
   (\<forall>i < bisect_right a x lo hi. a ! i \<le> x) \<and>
   (\<forall>i. bisect_right a x lo hi \<le> i \<and> i < length a \<longrightarrow> x < a ! i)"
proof (induction a x lo hi rule: bisect_right.induct)
  case (1 a x lo hi)
  show ?case
  proof (cases "lo < hi")
    case False
    then have "bisect_right a x lo hi = lo" by (rule bisect_right_stop)
    moreover have "lo = hi" using False 1(4) by simp
    ultimately show ?thesis using 1(5,6,7) by simp
  next
    case lt: True
    define mid where "mid = (lo + hi) div 2"
    have m: "lo \<le> mid" "mid < hi" "mid < length a" using lt 1(5) by (auto simp: mid_def)
    show ?thesis
    proof (cases "x < a ! mid")
      case True
      have up: "\<forall>i. mid \<le> i \<and> i < length a \<longrightarrow> x < a ! i"
      proof (intro allI impI)
        fix i assume i: "mid \<le> i \<and> i < length a"
        then have "a ! mid \<le> a ! i" using \<open>sorted a\<close> by (simp add: sorted_iff_nth_mono)
        with True show "x < a ! i" by simp
      qed
      have eq: "bisect_right a x lo hi = bisect_right a x lo mid"
        unfolding mid_def using lt True [unfolded mid_def] by (rule bisect_right_left)
      have "mid \<le> length a" using m by simp
      from 1(1) [OF lt mid_def True 1(3) m(1) this 1(6) up]
      show ?thesis unfolding eq .
    next
      case False
      have low: "\<forall>i < mid + 1. a ! i \<le> x"
      proof (intro allI impI)
        fix i assume i: "i < mid + 1"
        then have "a ! i \<le> a ! mid" using \<open>sorted a\<close> m by (simp add: sorted_iff_nth_mono)
        with False show "a ! i \<le> x" by simp
      qed
      have eq: "bisect_right a x lo hi = bisect_right a x (mid + 1) hi"
        unfolding mid_def using lt False [unfolded mid_def] by (rule bisect_right_right)
      have "mid + 1 \<le> hi" using m by simp
      from 1(2) [OF lt mid_def False 1(3) this 1(5) low 1(7)]
      show ?thesis unfolding eq .
    qed
  qed
qed

lemma bisect_right_0:
  assumes "sorted a"
  shows "bisect_right a x 0 (length a) \<le> length a \<and>
         (\<forall>i < bisect_right a x 0 (length a). a ! i \<le> x) \<and>
         (\<forall>i. bisect_right a x 0 (length a) \<le> i \<and> i < length a \<longrightarrow> x < a ! i)"
  by (rule bisect_right_split [OF assms]) auto

lemma sorted_bisect_insort:
  assumes "sorted a"
  shows "sorted (bisect_insort a x)"
proof -
  define p where "p = bisect_right a x 0 (length a)"
  have b: "p \<le> length a" and s1: "\<forall>i < p. a ! i \<le> x"
    and s2: "\<forall>i. p \<le> i \<and> i < length a \<longrightarrow> x < a ! i"
    using bisect_right_0 [OF assms, of x] by (simp_all add: p_def)
  have 1: "\<forall>y \<in> set (take p a). y \<le> x"
    using s1 b by (auto simp: in_set_conv_nth)
  have 2: "\<forall>y \<in> set (drop p a). x \<le> y"
  proof
    fix y assume "y \<in> set (drop p a)"
    then obtain i where "i < length a - p" "y = a ! (p + i)"
      by (auto simp: in_set_conv_nth)
    then show "x \<le> y" using s2 by (simp add: less_imp_le)
  qed
  have 3: "\<forall>y \<in> set (take p a). \<forall>z \<in> set (drop p a). y \<le> z"
    using 1 2 by (meson order_trans)
  have "sorted (take p a @ x # drop p a)"
    using assms 1 2 3 by (simp add: sorted_append sorted_wrt_take sorted_wrt_drop)
  then show ?thesis by (simp add: bisect_insort_def Let_def p_def)
qed

lemma mset_bisect_insort: "mset (bisect_insort a x) = add_mset x (mset a)"
proof -
  have "mset (take n a) + mset (drop n a) = mset a" for n
    by (metis append_take_drop_id mset_append)
  then show ?thesis by (simp add: bisect_insort_def Let_def)
qed

lemma get_list_add_global_handler:
  "get_list (add_global_handler hs e h p) k =
     (if k = e then bisect_insort (get_list hs e) (p, h) else get_list hs k)"
  by (simp add: add_global_handler_def get_list_def)

lemma registered_snoc:
  "registered (regs @ [(e, h, p)]) = add_global_handler (registered regs) e h p"
  by (simp add: registered_def)

lemma registered_sorted_mset:
  "sorted (get_list (registered regs) k) \<and>
   mset (get_list (registered regs) k) =
     mset (map (\<lambda>(e, h, p). (p, h)) (filter (\<lambda>(e, h, p). e = k) regs))"
proof (induction regs rule: rev_induct)
  case Nil
  show ?case by (simp add: registered_def get_list_def)
next
  case (snoc r regs)
  obtain e h p where r: "r = (e, h, p)" by (cases r)
  show ?case
  proof (cases "k = e")
    case True
    have "sorted (bisect_insort (get_list (registered regs) e) (p, h))"
      using snoc True by (simp add: sorted_bisect_insort)
    then show ?thesis using snoc True
      by (simp add: r registered_snoc get_list_add_global_handler mset_bisect_insort)
  next
    case False
    then show ?thesis using snoc
      by (simp add: r registered_snoc get_list_add_global_handler)
  qed
qed

lemma sorted_map_fst: "sorted (xs :: ('a::linorder \<times> 'b::linorder) list) \<Longrightarrow> sorted (map fst xs)"
  unfolding sorted_map
  by (erule sorted_wrt_mono_rel [rotated]) (auto simp: less_eq_prod_def)

section \<open>Claim C8: the order of a global handler list\<close>

text \<open>
  C8, as stated: handlers of one priority stand in the order of their registration. Two
  handlers registered for \<open>join\<close> with priority 0, first the handler 7, then the handler
  3 (the numbers order the handler objects as Python 2 does): the list holds 3 before 7.
\<close>

theorem C8_insertion_order_counterexample:
  "get_list (registered [(''join'', 7::nat, 0), (''join'', 3, 0)]) ''join'' = [(0, 3), (0, 7)]
   \<and> get_list (registered [(''join'', 7::nat, 0), (''join'', 3, 0)]) ''join'' \<noteq> [(0, 7), (0, 3)]"
  by code_simp

text \<open>
  C8, amended: after any sequence of registrations the global handler list of an event
  type is the sorted list of the pairs (priority, handler) registered for that type:
  ascending by priority, handlers of one priority in the order of the handler objects
  themselves, not in the order of their registration. The list, and with it the order of
  dispatch, is determined by what was registered with which priority.
\<close>

theorem C8_handler_order:
  "get_list (registered regs) k =
     sort (map (\<lambda>(e, h, p). (p, h)) (filter (\<lambda>(e, h, p). e = k) regs))
   \<and> sorted (map fst (get_list (registered regs) k))"
proof -
  have s: "sorted (get_list (registered regs) k)" 
   and m: "mset (get_list (registered regs) k) =
     mset (map (\<lambda>(e, h, p). (p, h)) (filter (\<lambda>(e, h, p). e = k) regs))"
    using registered_sorted_mset [of regs k] by simp_all
  have 1: "sort (map (\<lambda>(e, h, p). (p, h)) (filter (\<lambda>(e, h, p). e = k) regs)) = get_list (registered regs) k"
    using m s by (rule properties_for_sort)
  have 2: "sorted (map fst (get_list (registered regs) k))"
    using s by (rule sorted_map_fst)
  show ?thesis using 1 2 by simp
qed

section \<open>Claim C2: the order of dispatch and the stop signal\<close>

text \<open>
  C2 at a concrete input, and for every event. \<open>add_global_handler\<close> documents that the
  handler functions are called in priority order and that no more handlers are called
  after one has returned "NO MORE". \<open>IRC._handle_event\<close> reads the list of the event type
  with the call \<open>event.eventtype()\<close>, which raises \<open>TypeError\<close> on the namedtuple before the
  loop over the handlers starts: for every event, every table and every behaviour of the
  handlers the dispatch calls no handler and raises. \<open>ServerConnection._handle_event\<close>
  passes the exception on; when its library object returns (a \<open>Session\<close> does), it raises
  at the same call in its own test, so that no handler of the connection's table runs
  either. At the input: handler 1 is registered for \<open>disconnect\<close> with priority 0, handler
  2 with priority 5 and handler 3 for \<open>all_events\<close>; the connection's table holds handler 4
  for \<open>disconnect\<close>; no handler returns the stop signal. None of the four is called for
  the \<open>disconnect\<close> Event.
\<close>

theorem C2_no_handler_called:
  "IRC_handle_event call h ev = ([], Some TypeError)
   \<and> ServerConnection_handle_event (IRC_handle_event call h) handlers callc ev = ([], Some TypeError)
   \<and> fst (ServerConnection_handle_event irc handlers callc ev) = map Inl (fst (irc ev))
   \<and> snd (ServerConnection_handle_event irc handlers callc ev) =
        Some (case snd (irc ev) of None \<Rightarrow> TypeError | Some e \<Rightarrow> e)
   \<and> ServerConnection_handle_event
        (IRC_handle_event (\<lambda>f e. Inr None)
           (registered [(''disconnect'', 1::nat, 0), (''disconnect'', 2, 5), (''all_events'', 3, 9)]))
        [''disconnect'' \<mapsto> [4::nat]] (\<lambda>f e. None)
        \<lparr>eventtype = ''disconnect'', source = Some ''irc.example.net'', target = Some [],
         argument = [''bye'']\<rparr>
      = ([], Some TypeError)"
proof -
  have 1: "IRC_handle_event call h ev = ([], Some TypeError)" for call :: "'x \<Rightarrow> event \<Rightarrow> error + string option"
    and h ev
    by (simp add: IRC_handle_event_def Event_eventtype_call_def)
  have 2: "ServerConnection_handle_event irc handlers callc ev =
             (map Inl (fst (irc ev)), Some (case snd (irc ev) of None \<Rightarrow> TypeError | Some e \<Rightarrow> e))"
    for irc :: "event \<Rightarrow> 'y list \<times> error option" and handlers :: "string \<rightharpoonup> 'z list" and callc ev
    by (cases "irc ev")
       (simp add: ServerConnection_handle_event_def Event_eventtype_call_def split: option.splits)
  show ?thesis
    by (simp add: 1 2)
qed

section \<open>Lemmas on the Session dispatch\<close>

lemma server_parse_modes_raises: "server_parse_modes s = Inl AttributeError"
  by (simp add: server_parse_modes_def bnd_def)

lemma Session_handle_event_mode:
  assumes "eventtype ev \<in> {''mode'', ''umode''}"
  shows "Session_handle_event (Suc d) hc pong hs ev = ([], Some AttributeError)"
  using assms by (auto simp: Let_def server_parse_modes_raises)

lemma triggers_no_message:
  "triggers (h\<lparr>modes_required := []\<rparr>) cmd chan nick None =
     Inr ((events h = [] \<or> lower cmd \<in> set (events h))
        \<and> (channels h = [] \<or> among chan (channels h))
        \<and> (nicks h = [] \<or> among nick (nicks h)))"
  by (auto simp: triggers_def bnd_def truthy_def split: option.splits)

section \<open>Claim C1: a mode event with several changes is raised again change by change\<close>

text \<open>
  C1 at a concrete input, and for every mode event. \<open>Session._handle_event\<close> is written to
  decode a \<open>mode\<close> or \<open>umode\<close> event and to call itself on one low-level event per
  elementary change (its comment: the modes are wanted separate in high level). The
  decoding is the call \<open>server._parse_modes\<close>, a method that the connection object does
  not have: for every event of type \<open>mode\<close> or \<open>umode\<close>, at every depth of calls, with any
  handlers, the method raises \<open>AttributeError\<close> there, before anything is raised again or
  translated and before any callback. At the input, the event of \<open>+o-v alice bob\<close> on
  \<open>#chan\<close> with a handler registered for \<open>mode\<close>: no event per change, no callback.
\<close>

theorem C1_mode_event_raises:
  "Session_handle_event (Suc d) hc pong hs (ev\<lparr>eventtype := ''mode''\<rparr>) = ([], Some AttributeError)
   \<and> Session_handle_event (Suc d) hc pong hs (ev\<lparr>eventtype := ''umode''\<rparr>) = ([], Some AttributeError)
   \<and> Session_handle_event 1 True pong [event_handler rc [''mode''] [] [] [] [] (1::nat)]
        \<lparr>eventtype = ''mode'', source = Some ''op!u@h'', target = Some ''#chan'',
         argument = [''+o-v'', ''alice'', ''bob'']\<rparr>
      = ([], Some AttributeError)"
proof -
  have m: "Session_handle_event (Suc d) hc pong hs e = ([], Some AttributeError)"
    if "eventtype e \<in> {''mode'', ''umode''}"
    for d hc pong and hs :: "'a Handler list" and e
    using that by (rule Session_handle_event_mode)
  have 1: "Session_handle_event (Suc d) hc pong hs (ev\<lparr>eventtype := ''mode''\<rparr>) = ([], Some AttributeError)"
    by (rule m) simp
  have 2: "Session_handle_event (Suc d) hc pong hs (ev\<lparr>eventtype := ''umode''\<rparr>) = ([], Some AttributeError)"
    by (rule m) simp
  have 3: "Session_handle_event (Suc 0) True pong [event_handler rc [''mode''] [] [] [] [] (1::nat)]
        \<lparr>eventtype = ''mode'', source = Some ''op!u@h'', target = Some ''#chan'',
         argument = [''+o-v'', ''alice'', ''bob'']\<rparr>
      = ([], Some AttributeError)"
    by (rule Session_handle_event_mode) simp
  show ?thesis using 1 2 3 by simp
qed

section \<open>Claim C6: when a declarative handler fires\<close>

text \<open>
  C6 at concrete inputs. \<open>event_handler\<close> documents that the event is only triggered if
  the message of the HighEvent matches the pattern. The handler loop makes the test of the
  pattern under \<open>if message and regex\<close>: for an event with no message, or with an empty
  one, the pattern is not looked at. The pattern \<open>hello\<close> is modelled by its match (the
  message begins with \<open>hello\<close>, whatever the case).

  \<^item> Handler 1 is registered for \<open>join\<close> with the pattern \<open>hello\<close>. A \<open>join\<close> event has no
    message, nothing matches the pattern, and the callback fires.
  \<^item> Handler 1 is registered for \<open>disconnect\<close> with the pattern \<open>hello\<close>. The \<open>disconnect\<close>
    Event of \<open>disconnect()\<close> with its default message carries the empty string, which does
    not match, and the callback fires.
  \<^item> For any handler without required modes, any command, channel and nick, an event
    without message triggers the handler exactly when the three filters pass: the pattern
    plays no part.
  \<^item> Handler 1 is registered for \<open>text\<close> with the required modes \<open>o\<close>, handler 2 for \<open>text\<close>
    with nothing else. For a channel message the test of the modes calls
    \<open>server.hasanymodes\<close>, a method that the connection object does not have: the loop
    raises \<open>AttributeError\<close> at handler 1, and handler 2, all of whose filters pass, does
    not fire.
\<close>

theorem C6_pattern_not_tested:
  "Session_handle_event 1 True pong
     [event_handler (\<lambda>rx m. lower (take (length rx) m) = lower rx) [''join''] [] [] [] ''hello'' (1::nat)]
     \<lparr>eventtype = ''join'', source = Some ''alice!u@h'', target = Some ''#chan'', argument = []\<rparr>
   = ([Translated \<lparr>eventtype = ''join'', source = Some ''alice!u@h'', target = Some ''#chan'',
                   argument = []\<rparr>,
       Fired 1 (creator ''join'' (Some \<lparr>name = Some ''alice'', host = Bound (Some ''alice!u@h'')\<rparr>)
                  (Some ''#chan'') None)], None)
   \<and> Session_handle_event 1 True pong
     [event_handler (\<lambda>rx m. lower (take (length rx) m) = lower rx) [''disconnect''] [] [] [] ''hello'' (1::nat)]
     \<lparr>eventtype = ''disconnect'', source = Some ''irc.example.net'', target = Some [],
      argument = [[]]\<rparr>
   = ([Translated \<lparr>eventtype = ''disconnect'', source = Some ''irc.example.net'', target = Some [],
                   argument = [[]]\<rparr>,
       Fired 1 ((creator ''disconnect'' None None (Some []))
                  \<lparr>low_source := Bound (Some ''irc.example.net''), low_target := Bound (Some [])\<rparr>)],
      None)
   \<and> triggers (h\<lparr>modes_required := []\<rparr>) cmd chan nick None =
       Inr ((events h = [] \<or> lower cmd \<in> set (events h))
          \<and> (channels h = [] \<or> among chan (channels h))
          \<and> (nicks h = [] \<or> among nick (nicks h)))
   \<and> Session_handle_event 1 True pong
     [event_handler (\<lambda>rx m. lower (take (length rx) m) = lower rx) [''text''] [] [] ''o'' [] (1::nat),
      event_handler (\<lambda>rx m. lower (take (length rx) m) = lower rx) [''text''] [] [] [] [] 2]
     \<lparr>eventtype = ''pubmsg'', source = Some ''alice!u@h'', target = Some ''#chan'',
      argument = [''hi'']\<rparr>
   = ([Translated \<lparr>eventtype = ''pubmsg'', source = Some ''alice!u@h'', target = Some ''#chan'',
                   argument = [''hi'']\<rparr>], Some AttributeError)"
proof -
  let ?rc = "\<lambda>rx m. lower (take (length rx) m) = lower rx"
  have 1: "Session_handle_event 1 True pong
     [event_handler ?rc [''join''] [] [] [] ''hello'' (1::nat)]
     \<lparr>eventtype = ''join'', source = Some ''alice!u@h'', target = Some ''#chan'', argument = []\<rparr>
   = ([Translated \<lparr>eventtype = ''join'', source = Some ''alice!u@h'', target = Some ''#chan'',
                   argument = []\<rparr>,
       Fired 1 (creator ''join'' (Some \<lparr>name = Some ''alice'', host = Bound (Some ''alice!u@h'')\<rparr>)
                  (Some ''#chan'') None)], None)"
    by code_simp
  have 2: "Session_handle_event 1 True pong
     [event_handler ?rc [''disconnect''] [] [] [] ''hello'' (1::nat)]
     \<lparr>eventtype = ''disconnect'', source = Some ''irc.example.net'', target = Some [],
      argument = [[]]\<rparr>
   = ([Translated \<lparr>eventtype = ''disconnect'', source = Some ''irc.example.net'', target = Some [],
                   argument = [[]]\<rparr>,
       Fired 1 ((creator ''disconnect'' None None (Some []))
                  \<lparr>low_source := Bound (Some ''irc.example.net''), low_target := Bound (Some [])\<rparr>)],
      None)"
    by code_simp
  have 4: "Session_handle_event 1 True pong
     [event_handler ?rc [''text''] [] [] ''o'' [] (1::nat),
      event_handler ?rc [''text''] [] [] [] [] 2]
     \<lparr>eventtype = ''pubmsg'', source = Some ''alice!u@h'', target = Some ''#chan'',
      argument = [''hi'']\<rparr>
   = ([Translated \<lparr>eventtype = ''pubmsg'', source = Some ''alice!u@h'', target = Some ''#chan'',
                   argument = [''hi'']\<rparr>], Some AttributeError)"
    by code_simp
  show ?thesis
    using 1 2 4 triggers_no_message [of h cmd chan nick] by simp
qed

section \<open>Claim C4: disconnect twice\<close>

text \<open>
  C4: on a connection that is connected and holds a socket, \<open>disconnect(message)\<close> clears
  \<open>connected\<close>, writes the QUIT line (when the socket takes the write), closes the socket,
  sets it to null and gives exactly one \<open>disconnect\<close> Event with the message to the
  dispatcher, whose outcome is the outcome of the call. A second call, with any message,
  changes nothing and gives no Event: the state after two calls is the state after one.
\<close>

theorem C4_disconnect_twice:
  assumes "connected c" "socket c = Some k"
  shows "fst (disconnect w msg c) =
           c\<lparr>connected := False, socket := None,
             out := out c @ (if accepts k then [Sent (quit_line msg @ crlf)] else [])
                    @ [Closed, Emitted \<lparr>eventtype = ''disconnect'', source = Some (server c),
                                       target = Some [], argument = [msg]\<rparr>]\<rparr>
       \<and> snd (disconnect w msg c) =
           dispatch w \<lparr>eventtype = ''disconnect'', source = Some (server c), target = Some [],
                       argument = [msg]\<rparr>
       \<and> disconnect w msg' (fst (disconnect w msg c)) = (fst (disconnect w msg c), None)"
  using assms by (auto simp: disconnect_def transmit_def emit_def Let_def)

theorem C4_disconnect_twice_witness:
  "connected ((ServerConnection_init 0)\<lparr>connected := True, socket := Some (Sock True),
      server := ''irc.example.net''\<rparr>)
   \<and> socket ((ServerConnection_init 0)\<lparr>connected := True, socket := Some (Sock True),
      server := ''irc.example.net''\<rparr>) = Some (Sock True)
   \<and> out (fst (disconnect \<lparr>dispatch = (\<lambda>e. None), fn_to_add_socket = Bound False, network = None\<rparr>
        ''bye''
        (fst (disconnect \<lparr>dispatch = (\<lambda>e. None), fn_to_add_socket = Bound False, network = None\<rparr>
          ''bye''
          ((ServerConnection_init 0)\<lparr>connected := True, socket := Some (Sock True),
              server := ''irc.example.net''\<rparr>)))))
     = [Sent (''QUIT :bye'' @ crlf), Closed,
        Emitted \<lparr>eventtype = ''disconnect'', source = Some ''irc.example.net'', target = Some [],
                 argument = [''bye'']\<rparr>]"
proof -
  let ?c = "(ServerConnection_init 0)\<lparr>connected := True, socket := Some (Sock True),
      server := ''irc.example.net''\<rparr>"
  let ?w = "\<lparr>dispatch = (\<lambda>e. None), fn_to_add_socket = Bound False, network = None\<rparr>"
  have a: "connected ?c" and b: "socket ?c = Some (Sock True)"
    by simp_all
  note t = C4_disconnect_twice [OF a b, of ?w "''bye''" "''bye''"]
  have 1: "out (fst (disconnect ?w ''bye'' ?c)) =
             [Sent (''QUIT :bye'' @ crlf), Closed,
              Emitted \<lparr>eventtype = ''disconnect'', source = Some ''irc.example.net'', target = Some [],
                 argument = [''bye'']\<rparr>]"
    by (subst t [THEN conjunct1]) (simp add: ServerConnection_init_def quit_line_def)
  have 2: "fst (disconnect ?w ''bye'' (fst (disconnect ?w ''bye'' ?c))) = fst (disconnect ?w ''bye'' ?c)"
    by (subst t [THEN conjunct2, THEN conjunct2]) simp
  show ?thesis
    using a b 1 by (simp only: 2 simp_thms)
qed

section \<open>Claim C9: the watchdog of the poll loop\<close>

text \<open>
  C9 at a concrete input. A connection of a \<open>Session\<close> is connected, its last data came
  at time 0, and the poll loop looks at it at time 260. The loop calls \<open>reconnect\<close> with the
  reason: \<open>disconnect\<close> writes the QUIT line, closes the socket and gives the \<open>disconnect\<close>
  Event to the dispatcher of the class, which raises \<open>TypeError\<close> at \<open>event.eventtype()\<close>;
  \<open>connect\<close> is not reached and the connection stays without a socket. Where the dispatch
  returns and the library object is an \<open>IRC\<close>, the connection is opened again, but
  \<open>connect\<close> leaves \<open>_last_ping\<close> as it was: the next poll, a fifth of a second later and
  still without data, hangs up and opens the connection once more.
\<close>

theorem C9_watchdog_evaluated:
  "check_ping \<lparr>dispatch = own_dispatch (\<lambda>e. None), fn_to_add_socket = Unset, network = Some (Sock True)\<rparr>
     260
     ((ServerConnection_init 0)\<lparr>connected := True, socket := Some (Sock True),
        server := ''irc.example.net'', port := 6667, nickname' := ''bot'', username := ''bot'',
        ircname := ''bot''\<rparr>)
   = ((ServerConnection_init 0)\<lparr>connected := False, socket := None,
        server := ''irc.example.net'', port := 6667, nickname' := ''bot'', username := ''bot'',
        ircname := ''bot'',
        out := [Sent (''QUIT :Ping timeout: 260 seconds'' @ crlf), Closed,
                Emitted \<lparr>eventtype = ''disconnect'', source = Some ''irc.example.net'',
                         target = Some [], argument = [''Ping timeout: 260 seconds'']\<rparr>]\<rparr>,
      Some TypeError)
   \<and> filter (\<lambda>a. a = Opened)
       (out (fst (check_ping \<lparr>dispatch = (\<lambda>e. None), fn_to_add_socket = Bound False, network = Some (Sock True)\<rparr>
          (260 + 1 / 5)
          (fst (check_ping \<lparr>dispatch = (\<lambda>e. None), fn_to_add_socket = Bound False, network = Some (Sock True)\<rparr>
             260
             ((ServerConnection_init 0)\<lparr>connected := True, socket := Some (Sock True),
                server := ''irc.example.net'', port := 6667, nickname' := ''bot'', username := ''bot'',
                ircname := ''bot''\<rparr>))))))
     = [Opened, Opened]"
  by code_simp

section \<open>Lemmas on the sending loop\<close>

lemma send_raw_instant_ok:
  "socket c = Some k \<Longrightarrow> accepts k \<Longrightarrow>
   send_raw_instant w s c = (c\<lparr>out := out c @ [Sent (s @ crlf)]\<rparr>, None)"
  by (simp add: send_raw_instant_def transmit_def)

lemma drain_Nil: "message_queue c = [] \<Longrightarrow> drain w c = (c, None)"
  by (rule trans [OF drain.simps]) simp

lemma drain_over: "2500 < sent_bytes c \<Longrightarrow> drain w c = (c, None)"
  by (rule trans [OF drain.simps]) (simp split: list.splits)

lemma drain_send:
  "message_queue c = m # q \<Longrightarrow> sent_bytes c \<le> 2500 \<Longrightarrow>
   send_raw_instant w m (c\<lparr>message_queue := q\<rparr>) = (c2, None) \<Longrightarrow>
   drain w c = drain w (c2\<lparr>sent_bytes := sent_bytes c2 + utf8_len m\<rparr>)"
  by (rule trans [OF drain.simps]) simp

lemma drain_healthy:
  assumes "socket c = Some k" "accepts k"
  shows "\<exists>j \<le> length (message_queue c).
           drain w c =
             (c\<lparr>message_queue := drop j (message_queue c),
                out := out c @ map (\<lambda>m. Sent (m @ crlf)) (take j (message_queue c)),
                sent_bytes := sent_bytes c + sum_list (map utf8_len (take j (message_queue c)))\<rparr>, None)
         \<and> (\<forall>i < j. sent_bytes c + sum_list (map utf8_len (take i (message_queue c))) \<le> 2500)
         \<and> (j < length (message_queue c) \<longrightarrow>
               2500 < sent_bytes c + sum_list (map utf8_len (take j (message_queue c))))"
  using assms
proof (induction "message_queue c" arbitrary: c)
  case Nil
  then have "drain w c = (c, None)" by (simp add: drain_Nil)
  then show ?case using Nil by (intro exI [of _ 0]) simp
next
  case (Cons m q)
  note mq = Cons(2) [symmetric]
  show ?case
  proof (cases "sent_bytes c \<le> 2500")
    case False
    then have "drain w c = (c, None)" by (simp add: drain_over)
    then show ?thesis using False by (intro exI [of _ 0]) simp
  next
    case True
    define c' where "c' = c\<lparr>message_queue := q, out := out c @ [Sent (m @ crlf)],
        sent_bytes := sent_bytes c + utf8_len m\<rparr>"
    have s: "send_raw_instant w m (c\<lparr>message_queue := q\<rparr>) =
               (c\<lparr>message_queue := q, out := out c @ [Sent (m @ crlf)]\<rparr>, None)"
      using Cons(3,4) by (simp add: send_raw_instant_ok)
    have d: "drain w c = drain w c'"
      using drain_send [OF mq True s] by (simp add: c'_def)
    have q: "q = message_queue c'" and k: "socket c' = Some k" by (simp_all add: c'_def Cons(3))
    from Cons(1) [OF q k Cons(4)] obtain j where j: "j \<le> length (message_queue c')"
      "drain w c' =
             (c'\<lparr>message_queue := drop j (message_queue c'),
                out := out c' @ map (\<lambda>m. Sent (m @ crlf)) (take j (message_queue c')),
                sent_bytes := sent_bytes c' + sum_list (map utf8_len (take j (message_queue c')))\<rparr>, None)"
      "\<forall>i < j. sent_bytes c' + sum_list (map utf8_len (take i (message_queue c'))) \<le> 2500"
      "j < length (message_queue c') \<longrightarrow>
               2500 < sent_bytes c' + sum_list (map utf8_len (take j (message_queue c')))"
      by blast
    have 1: "Suc j \<le> length (message_queue c)" using j(1) mq by (simp add: c'_def)
    have 2: "drain w c =
             (c\<lparr>message_queue := drop (Suc j) (message_queue c),
                out := out c @ map (\<lambda>m. Sent (m @ crlf)) (take (Suc j) (message_queue c)),
                sent_bytes := sent_bytes c + sum_list (map utf8_len (take (Suc j) (message_queue c)))\<rparr>, None)"
      unfolding d j(2) by (simp add: c'_def mq add.assoc)
    have 3: "\<forall>i < Suc j. sent_bytes c + sum_list (map utf8_len (take i (message_queue c))) \<le> 2500"
    proof (intro allI impI)
      fix i assume i: "i < Suc j"
      show "sent_bytes c + sum_list (map utf8_len (take i (message_queue c))) \<le> 2500"
      proof (cases i)
        case 0
        then show ?thesis using True by simp
      next
        case (Suc i')
        then have "i' < j" using i by simp
        then show ?thesis using j(3) Suc by (simp add: c'_def mq add.assoc)
      qed
    qed
    have 4: "Suc j < length (message_queue c) \<longrightarrow>
               2500 < sent_bytes c + sum_list (map utf8_len (take (Suc j) (message_queue c)))"
      using j(4) by (simp add: c'_def mq add.assoc)
    show ?thesis using 1 2 3 4 by blast
  qed
qed


lemma advance_window_keeps:
  "message_queue (advance_window now c) = message_queue c"
  "out (advance_window now c) = out c"
  "socket (advance_window now c) = socket c"
  by (simp_all add: advance_window_def Let_def)

lemma utf8_len_replicate:
  "utf8_len (replicate n c) = n * (if (of_char c :: nat) < 128 then 1 else 2)"
  by (induction n) (simp_all add: utf8_len_def)

lemma drain_step_ok:
  "socket c = Some (Sock True) \<Longrightarrow> message_queue c \<noteq> [] \<Longrightarrow> sent_bytes c \<le> 2500 \<Longrightarrow>
   drain w c =
     drain w (c\<lparr>message_queue := tl (message_queue c),
                out := out c @ [Sent (hd (message_queue c) @ crlf)],
                sent_bytes := sent_bytes c + utf8_len (hd (message_queue c))\<rparr>)"
proof -
  assume a: "socket c = Some (Sock True)" "message_queue c \<noteq> []" "sent_bytes c \<le> 2500"
  then obtain m q where mq: "message_queue c = m # q" by (cases "message_queue c") auto
  have s: "send_raw_instant w m (c\<lparr>message_queue := q\<rparr>) =
               (c\<lparr>message_queue := q, out := out c @ [Sent (m @ crlf)]\<rparr>, None)"
    using a(1) by (simp add: send_raw_instant_ok)
  show ?thesis using drain_send [OF mq a(3) s] by (simp add: mq)
qed

section \<open>Claim C3: the byte budget of a window\<close>

text \<open>
  C3, as stated: of queued messages whose sizes sum to more than 2500 bytes only the
  prefix that fits the budget is sent within one window. A connection with a working
  socket holds two messages of 1500 bytes and \<open>PING x\<close>; the pass at time 2 starts a new
  window. The first message fits the budget and the first two do not (3000 bytes), yet
  both are sent in this pass: the counter is tested before a message is sent, not the
  counter and the message.
\<close>

theorem C3_budget_counterexample:
  "sent_bytes (fst (send_once_conn
       \<lparr>dispatch = (\<lambda>e. None), fn_to_add_socket = Bound False, network = None\<rparr> 2
       ((ServerConnection_init 0)\<lparr>connected := True, socket := Some (Sock True),
           message_queue := [replicate 1500 CHR ''a'', replicate 1500 CHR ''b'', ''PING x'']\<rparr>))) = 3000
   \<and> message_queue (fst (send_once_conn
       \<lparr>dispatch = (\<lambda>e. None), fn_to_add_socket = Bound False, network = None\<rparr> 2
       ((ServerConnection_init 0)\<lparr>connected := True, socket := Some (Sock True),
           message_queue := [replicate 1500 CHR ''a'', replicate 1500 CHR ''b'', ''PING x'']\<rparr>))) = [''PING x'']"
  by (simp add: send_once_conn_def advance_window_def ServerConnection_init_def drain_step_ok
      drain_over utf8_len_replicate)

text \<open>
  C3, amended: on a send pass over a connection whose socket takes the writes, the window
  grows by the time since the last pass, and when it reaches 1.3 seconds the window and
  the byte counter are set to zero together (otherwise the counter is kept). Then the
  messages are taken from the head of the queue and sent, in order, while the counter is
  at most 2500 before the message is sent, each send adding the encoded length of the
  message to the counter: the messages sent in one pass are the first \<open>j\<close> of the queue,
  the counter was at most 2500 before each of them, and when messages remain the counter
  is above 2500, so the last message sent may take the counter over the budget. The
  remainder stays queued; a pass that finds the counter at most 2500 (as after a reset)
  and a queue that is not empty sends at least its head.
\<close>

theorem C3_send_pass:
  assumes "socket c = Some k" "accepts k"
  shows "\<exists>j \<le> length (message_queue c).
           (13 / 10 \<le> send_time c + (now - last_time c) \<longrightarrow>
              send_time (advance_window now c) = 0 \<and> sent_bytes (advance_window now c) = 0)
         \<and> (send_time c + (now - last_time c) < 13 / 10 \<longrightarrow>
              send_time (advance_window now c) = send_time c + (now - last_time c) \<and>
              sent_bytes (advance_window now c) = sent_bytes c)
         \<and> send_once_conn w now c =
             ((advance_window now c)
                \<lparr>message_queue := drop j (message_queue c),
                 out := out c @ map (\<lambda>m. Sent (m @ crlf)) (take j (message_queue c)),
                 sent_bytes := sent_bytes (advance_window now c)
                               + sum_list (map utf8_len (take j (message_queue c)))\<rparr>, None)
         \<and> (\<forall>i < j. sent_bytes (advance_window now c)
                       + sum_list (map utf8_len (take i (message_queue c))) \<le> 2500)
         \<and> (j < length (message_queue c) \<longrightarrow>
               2500 < sent_bytes (advance_window now c)
                      + sum_list (map utf8_len (take j (message_queue c))))
         \<and> (message_queue c \<noteq> [] \<and> sent_bytes (advance_window now c) \<le> 2500 \<longrightarrow> 0 < j)"
proof -
  let ?c1 = "advance_window now c"
  have k: "socket ?c1 = Some k" using assms(1) by (simp add: advance_window_keeps)
  from drain_healthy [OF k assms(2), of w] obtain j where j:
    "j \<le> length (message_queue ?c1)"
    "drain w ?c1 =
             (?c1\<lparr>message_queue := drop j (message_queue ?c1),
                out := out ?c1 @ map (\<lambda>m. Sent (m @ crlf)) (take j (message_queue ?c1)),
                sent_bytes := sent_bytes ?c1 + sum_list (map utf8_len (take j (message_queue ?c1)))\<rparr>, None)"
    "\<forall>i < j. sent_bytes ?c1 + sum_list (map utf8_len (take i (message_queue ?c1))) \<le> 2500"
    "j < length (message_queue ?c1) \<longrightarrow>
               2500 < sent_bytes ?c1 + sum_list (map utf8_len (take j (message_queue ?c1)))"
    by blast
  have w1: "13 / 10 \<le> send_time c + (now - last_time c) \<longrightarrow>
              send_time ?c1 = 0 \<and> sent_bytes ?c1 = 0"
    by (simp add: advance_window_def Let_def)
  have w2: "send_time c + (now - last_time c) < 13 / 10 \<longrightarrow>
              send_time ?c1 = send_time c + (now - last_time c) \<and> sent_bytes ?c1 = sent_bytes c"
    by (simp add: advance_window_def Let_def)
  have pos: "message_queue c \<noteq> [] \<and> sent_bytes ?c1 \<le> 2500 \<longrightarrow> 0 < j"
  proof (intro impI, rule ccontr)
    assume a: "message_queue c \<noteq> [] \<and> sent_bytes ?c1 \<le> 2500" and "\<not> 0 < j"
    then have "j = 0" by simp
    then show False using j(4) a by (simp add: advance_window_keeps)
  qed
  show ?thesis
    using j w1 w2 pos
    by (intro exI [of _ j]) (simp add: advance_window_keeps send_once_conn_def)
qed

theorem C3_send_pass_witness:
  "socket ((ServerConnection_init 0)\<lparr>connected := True, socket := Some (Sock True),
       sent_bytes := 2490, message_queue := [''NICK a'', ''NICK b'', ''NICK c'']\<rparr>) = Some (Sock True)
   \<and> accepts (Sock True)
   \<and> sent_bytes (fst (send_once_conn
       \<lparr>dispatch = (\<lambda>e. None), fn_to_add_socket = Bound False, network = None\<rparr> 1
       ((ServerConnection_init 0)\<lparr>connected := True, socket := Some (Sock True),
           sent_bytes := 2490, message_queue := [''NICK a'', ''NICK b'', ''NICK c'']\<rparr>))) = 2502
   \<and> message_queue (fst (send_once_conn
       \<lparr>dispatch = (\<lambda>e. None), fn_to_add_socket = Bound False, network = None\<rparr> 1
       ((ServerConnection_init 0)\<lparr>connected := True, socket := Some (Sock True),
           sent_bytes := 2490, message_queue := [''NICK a'', ''NICK b'', ''NICK c'']\<rparr>))) = [''NICK c'']"
proof -
  let ?c = "(ServerConnection_init 0)\<lparr>connected := True, socket := Some (Sock True),
       sent_bytes := 2490, message_queue := [''NICK a'', ''NICK b'', ''NICK c'']\<rparr>"
  let ?w = "\<lparr>dispatch = (\<lambda>e. None), fn_to_add_socket = Bound False, network = None\<rparr>"
  have a: "socket ?c = Some (Sock True)" and b: "accepts (Sock True)"
    by simp_all
  have c: "sent_bytes (fst (send_once_conn ?w 1 ?c)) = 2502
           \<and> message_queue (fst (send_once_conn ?w 1 ?c)) = [''NICK c'']"
    by (simp add: send_once_conn_def advance_window_def ServerConnection_init_def drain_step_ok
        drain_over utf8_len_def)
  from C3_send_pass [OF a b, of 1 ?w] obtain j where "j \<le> length (message_queue ?c)"
    by blast
  then show ?thesis using a b c by simp
qed

section \<open>Lemmas on process_data\<close>

lemma grows_refl: "grows c c"
  by (simp add: grows_def)

lemma grows_trans: "grows a b \<Longrightarrow> grows b c \<Longrightarrow> grows a c"
  by (auto simp: grows_def)

lemma grows_same: "out c' = out c \<Longrightarrow> grows c c'"
  by (simp add: grows_def)

lemma emit_eq: "emit w ev c = (c\<lparr>out := out c @ [Emitted ev]\<rparr>, dispatch w ev)"
  by (simp add: emit_def)

lemma grows_emit: "grows c (fst (emit w ev c))"
  by (simp add: grows_def emit_def)

lemma ctcp_segment_grows: "grows c (fst (ctcp_segment w pfx tgt comm part c))"
proof (cases part)
  case (Plain m)
  then show ?thesis by (simp add: ctcp_segment_def grows_emit)
next
  case (Tagged m)
  let ?e = "emit w \<lparr>eventtype = segment_command comm part, source = pfx, target = Some tgt,
                         argument = m\<rparr> c"
  have 1: "grows c (fst ?e)" by (rule grows_emit)
  have 2: "grows (fst ?e) (fst (emit w ev (fst ?e)))" for ev by (rule grows_emit)
  show ?thesis
    using 1 grows_trans [OF 1 2]
    by (cases ?e) (auto simp: ctcp_segment_def Tagged split: option.splits list.splits)
qed

lemma ctcp_loop_grows: "grows c (fst (ctcp_loop w pfx tgt comm ms c))"
proof (induction ms arbitrary: comm c)
  case Nil
  show ?case by (simp add: grows_refl)
next
  case (Cons part ms)
  obtain c1 r where s: "ctcp_segment w pfx tgt comm part c = (c1, r)"
    by (cases "ctcp_segment w pfx tgt comm part c")
  have g: "grows c c1" using ctcp_segment_grows [of c w pfx tgt comm part] s by simp
  show ?case
  proof (cases r)
    case None
    then show ?thesis using s g Cons [of c1 "segment_command comm part"]
      by (auto intro: grows_trans)
  next
    case (Some e)
    then show ?thesis using s g by simp
  qed
qed

lemma handle_message_grows: "grows c (fst (handle_message w u pfx comm arguments c))"
  by (auto simp: handle_message_def grows_refl ctcp_loop_grows split: sum.splits)

lemma tracker_step_out: "out (fst (tracker_step comm args c)) = out c"
  by (auto simp: tracker_step_def split: sum.splits)

lemma mode_step_out: "out (fst (mode_step args c)) = out c"
  by (auto simp: mode_step_def split: sum.splits)

lemma nick_welcome_step_out: "out (fst (nick_welcome_step pfx comm arguments c)) = out c"
  by (auto simp: nick_welcome_step_def split: sum.splits)

lemma handle_other_grows: "grows c (fst (handle_other w u pfx comm arguments c))"
proof (cases "sub arguments 0")
  case (Inl e)
  then show ?thesis by (simp add: handle_other_def grows_refl)
next
  case (Inr a0)
  show ?thesis
  proof (cases "comm = ''quit''")
    case True
    then show ?thesis using Inr by (simp add: handle_other_def grows_refl)
  next
    case False
    let ?args = "(if comm = ''ping'' then (case arguments of Some l \<Rightarrow> l | None \<Rightarrow> [])
                         else (case arguments of Some l \<Rightarrow> drop 1 l | None \<Rightarrow> []))"
    obtain c1 r where t: "tracker_step comm ?args c = (c1, r)" by (cases "tracker_step comm ?args c")
    have g1: "grows c c1" using tracker_step_out [of comm ?args c] t by (simp add: grows_same)
    have g2: "grows c1 (fst (mode_step ?args c1))" by (simp add: grows_same mode_step_out)
    have g3: "grows c1 (fst (emit w ev c1))" for ev by (rule grows_emit)
    have "handle_other w u pfx comm arguments c =
            (case r of Some e \<Rightarrow> (c1, Some e)
             | None \<Rightarrow> if comm = ''mode'' then mode_step ?args c1
                        else emit w \<lparr>eventtype = comm, source = pfx, target = Some a0, argument = ?args\<rparr> c1)"
      using Inr False t by (simp add: handle_other_def Let_def)
    then show ?thesis
      using g1 grows_trans [OF g1 g2] grows_trans [OF g1 g3]
      by (cases r) auto
  qed
qed


lemma process_line_raw:
  assumes "line \<noteq> []"
  shows "\<exists>rest. out (fst (process_line w u c line)) = out c @ Emitted (raw_event c line) # rest"
proof -
  define c1 where "c1 = c\<lparr>out := out c @ [Emitted (raw_event c line)]\<rparr>"
  have e: "emit w (raw_event c line) c = (c1, dispatch w (raw_event c line))"
    by (simp add: emit_eq c1_def)
  have o1: "out c1 = out c @ [Emitted (raw_event c line)]" by (simp add: c1_def)
  have "grows c1 (fst (process_line w u c line))"
  proof (cases "dispatch w (raw_event c line)")
    case (Some x)
    then show ?thesis using assms e by (simp add: process_line_def grows_refl)
  next
    case None
    note d = this
    show ?thesis
    proof (cases "rfc_1459_command_match line")
      case None
      then show ?thesis using assms e d by (simp add: process_line_def grows_refl)
    next
      case (Some t)
      obtain pfx cmd argstr where t: "t = (pfx, cmd, argstr)" by (cases t)
      let ?c2 = "(case pfx of None \<Rightarrow> c1
                             | Some p \<Rightarrow> if real_server_name c1 = [] then c1\<lparr>real_server_name := p\<rparr> else c1)"
      let ?arguments = "map_option split_args argstr"
      let ?comm = "translate_numeric (lower cmd)"
      have g2: "grows c1 ?c2" by (auto simp: grows_def split: option.splits)
      obtain c3 r where n: "nick_welcome_step pfx ?comm ?arguments ?c2 = (c3, r)"
        by (cases "nick_welcome_step pfx ?comm ?arguments ?c2")
      have g3: "grows ?c2 c3" using nick_welcome_step_out [of pfx ?comm ?arguments ?c2] n
        by (simp add: grows_same)
      have g13: "grows c1 c3" using g2 g3 by (rule grows_trans)
      have p: "process_line w u c line =
                 (case r of Some e \<Rightarrow> (c3, Some e)
                  | None \<Rightarrow> if ?comm \<in> {''privmsg'', ''notice''}
                             then handle_message w u pfx ?comm ?arguments c3
                             else handle_other w u pfx ?comm ?arguments c3)"
        using assms e d Some t n
        by (simp add: process_line_def Let_def)
      show ?thesis
        unfolding p
        using g13 grows_trans [OF g13 handle_message_grows] grows_trans [OF g13 handle_other_grows]
        by (cases r) auto
    qed
  qed
  then show ?thesis using o1 by (auto simp: grows_def)
qed

lemma process_line_no_match:
  assumes "line \<noteq> []" "dispatch w (raw_event c line) = None" "rfc_1459_command_match line = None"
  shows "process_line w u c line = (c\<lparr>out := out c @ [Emitted (raw_event c line)]\<rparr>, Some AttributeError)"
  using assms by (simp add: process_line_def emit_eq)


lemma own_dispatch_raises:
  "own_dispatch irc ev = Some (case irc ev of None \<Rightarrow> TypeError | Some e \<Rightarrow> e)"
  by (simp add: own_dispatch_def ServerConnection_handle_event_def Event_eventtype_call_def
      split: option.splits)

lemma process_line_own_dispatch:
  "process_line (w\<lparr>dispatch := own_dispatch irc\<rparr>) u c (ch # line) =
     (c\<lparr>out := out c @ [Emitted (raw_event c (ch # line))]\<rparr>,
      Some (case irc (raw_event c (ch # line)) of None \<Rightarrow> TypeError | Some e \<Rightarrow> e))"
  by (simp add: process_line_def emit_def own_dispatch_raises)

section \<open>Claim C5: the raw Event of a line\<close>

text \<open>
  C5, as stated: every non-empty line received gets its \<open>all_raw_messages\<close> Event. One
  read brings two lines, a \<open>JOIN\<close> and a \<open>PING\<close>. With a dispatch that returns, the first
  line gets its raw Event and then raises at the tracker; the exception leaves
  \<open>process_data\<close> and the second line gets no Event. With the dispatcher of the class the
  raw Event of the first line is handed to the library object and the dispatcher raises
  \<open>TypeError\<close>; the second line gets no Event either.
\<close>

theorem C5_later_line_counterexample:
  "process_data \<lparr>dispatch = (\<lambda>e. None), fn_to_add_socket = Bound False, network = None\<rparr>
     \<lparr>linesep_split = split_lines, ctcp_dequote = (\<lambda>m. [Plain m]), is_channel' = (\<lambda>t. take 1 t = ''#'')\<rparr>
     5 (Data ('':a!b@c JOIN #chan'' @ crlf @ ''PING :abc'' @ crlf))
     ((ServerConnection_init 0)\<lparr>connected := True, socket := Some (Sock True)\<rparr>)
   = ((ServerConnection_init 0)\<lparr>connected := True, socket := Some (Sock True), last_ping := 5,
        real_server_name := ''a!b@c'',
        out := [Emitted \<lparr>eventtype = ''all_raw_messages'', source = Some [], target = None,
                         argument = ['':a!b@c JOIN #chan'']\<rparr>]\<rparr>, Some AttributeError)
   \<and> process_data \<lparr>dispatch = own_dispatch (\<lambda>e. None), fn_to_add_socket = Bound False, network = None\<rparr>
     \<lparr>linesep_split = split_lines, ctcp_dequote = (\<lambda>m. [Plain m]), is_channel' = (\<lambda>t. take 1 t = ''#'')\<rparr>
     5 (Data ('':a!b@c JOIN #chan'' @ crlf @ ''PING :abc'' @ crlf))
     ((ServerConnection_init 0)\<lparr>connected := True, socket := Some (Sock True)\<rparr>)
   = ((ServerConnection_init 0)\<lparr>connected := True, socket := Some (Sock True), last_ping := 5,
        out := [Emitted \<lparr>eventtype = ''all_raw_messages'', source = Some [], target = None,
                         argument = ['':a!b@c JOIN #chan'']\<rparr>]\<rparr>, Some TypeError)"
  by code_simp

text \<open>
  C5, amended: for every non-empty line that the loop of \<open>process_data\<close> reaches, the
  \<open>all_raw_messages\<close> Event with the line as its only argument is the first thing the
  connection does for that line, before the line is matched against the grammar, and it
  is given to the dispatcher also when the line does not match (the failed match then
  raises). An exception raised for a line ends the loop: the lines behind it in the same
  read are not processed and get no Event; without an exception the loop goes on with the
  next line.
\<close>

theorem C5_raw_event_first:
  "(line \<noteq> [] \<longrightarrow>
      (\<exists>rest. out (fst (process_line w u c line)) = out c @ Emitted (raw_event c line) # rest))
   \<and> (line \<noteq> [] \<longrightarrow> dispatch w (raw_event c line) = None \<longrightarrow> rfc_1459_command_match line = None \<longrightarrow>
        process_line w u c line =
          (c\<lparr>out := out c @ [Emitted (raw_event c line)]\<rparr>, Some AttributeError))
   \<and> (snd (process_line w u c l) = Some e \<longrightarrow>
        process_lines w u c (l # ls) = (fst (process_line w u c l), Some e))
   \<and> (snd (process_line w u c l) = None \<longrightarrow>
        process_lines w u c (l # ls) = process_lines w u (fst (process_line w u c l)) ls)
   \<and> raw_event c line =
        \<lparr>eventtype = ''all_raw_messages'', source = Some (real_server_name c), target = None,
         argument = [line]\<rparr>"
proof -
  have 3: "process_lines w u c (l # ls) = (fst (process_line w u c l), Some e)"
    if "snd (process_line w u c l) = Some e"
    using that by (cases "process_line w u c l") simp
  have 4: "process_lines w u c (l # ls) = process_lines w u (fst (process_line w u c l)) ls"
    if "snd (process_line w u c l) = None"
    using that by (cases "process_line w u c l") simp
  show ?thesis
    using process_line_raw [of line w u c] process_line_no_match [of line w c u] 3 4
    by (simp add: raw_event_def)
qed

theorem C5_raw_event_first_witness:
  "'' x'' \<noteq> []
   \<and> dispatch \<lparr>dispatch = (\<lambda>e. None), fn_to_add_socket = Bound False, network = None\<rparr>
        (raw_event ((ServerConnection_init 0)\<lparr>connected := True, socket := Some (Sock True)\<rparr>) '' x'') = None
   \<and> rfc_1459_command_match '' x'' = None
   \<and> process_line \<lparr>dispatch = (\<lambda>e. None), fn_to_add_socket = Bound False, network = None\<rparr>
        \<lparr>linesep_split = split_lines, ctcp_dequote = (\<lambda>m. [Plain m]), is_channel' = (\<lambda>t. take 1 t = ''#'')\<rparr>
        ((ServerConnection_init 0)\<lparr>connected := True, socket := Some (Sock True)\<rparr>) '' x''
      = ((ServerConnection_init 0)\<lparr>connected := True, socket := Some (Sock True),
           out := [Emitted \<lparr>eventtype = ''all_raw_messages'', source = Some [], target = None,
                            argument = ['' x'']\<rparr>]\<rparr>, Some AttributeError)"
proof -
  let ?w = "\<lparr>dispatch = (\<lambda>e. None), fn_to_add_socket = Bound False, network = None\<rparr>"
  let ?u = "\<lparr>linesep_split = split_lines, ctcp_dequote = (\<lambda>m. [Plain m]), is_channel' = (\<lambda>t. take 1 t = ''#'')\<rparr>"
  let ?c = "(ServerConnection_init 0)\<lparr>connected := True, socket := Some (Sock True)\<rparr>"
  have a: "'' x'' \<noteq> []" by simp
  have b: "dispatch ?w (raw_event ?c '' x'') = None" by simp
  have m: "rfc_1459_command_match '' x'' = None" by code_simp
  have "process_line ?w ?u ?c '' x'' = (?c\<lparr>out := out ?c @ [Emitted (raw_event ?c '' x'')]\<rparr>, Some AttributeError)"
    using C5_raw_event_first [of "'' x''" ?w ?u ?c] a b m by blast
  then show ?thesis
    using a b m by (simp add: raw_event_def ServerConnection_init_def)
qed

section \<open>Claim C10: the tracker that is never assigned\<close>

text \<open>
  C10 at a concrete input, and for every line. \<open>ServerConnection.__init__\<close> does not
  assign \<open>self.sqlite\<close>, and the statements of \<open>process_data\<close> that read it would raise
  \<open>AttributeError\<close>; no received line gets that far. The first thing \<open>process_data\<close> does
  with a non-empty line is to give its \<open>all_raw_messages\<close> Event to
  \<open>self._handle_event\<close>, the dispatcher of the class, which hands the Event to the library
  object and then calls \<open>event.eventtype()\<close> on the namedtuple: the dispatch raises
  (\<open>TypeError\<close> when the library object returns, as a \<open>Session\<close> does for a raw Event, and
  otherwise the exception of the library object), the exception leaves the line, the
  loop over the lines and \<open>process_data\<close>, and the raw Event is all that was done for the
  line. At the input, the line \<open>:alice!u@h JOIN #chan\<close> read by a connection of a
  \<open>Session\<close>: \<open>process_data\<close> raises \<open>TypeError\<close>, not an attribute error, and in the
  dispatch of the raw Event, not behind it.
\<close>

theorem C10_raw_dispatch_raises:
  "process_line (w\<lparr>dispatch := own_dispatch irc\<rparr>) u c (ch # line) =
     (c\<lparr>out := out c @ [Emitted (raw_event c (ch # line))]\<rparr>,
      Some (case irc (raw_event c (ch # line)) of None \<Rightarrow> TypeError | Some e \<Rightarrow> e))
   \<and> process_lines (w\<lparr>dispatch := own_dispatch irc\<rparr>) u c ((ch # line) # ls) =
     (c\<lparr>out := out c @ [Emitted (raw_event c (ch # line))]\<rparr>,
      Some (case irc (raw_event c (ch # line)) of None \<Rightarrow> TypeError | Some e \<Rightarrow> e))
   \<and> process_data \<lparr>dispatch = own_dispatch (\<lambda>e. None), fn_to_add_socket = Unset, network = None\<rparr>
        \<lparr>linesep_split = split_lines, ctcp_dequote = (\<lambda>m. [Plain m]), is_channel' = (\<lambda>t. take 1 t = ''#'')\<rparr>
        5 (Data ('':alice!u@h JOIN #chan'' @ crlf))
        ((ServerConnection_init 0)\<lparr>connected := True, socket := Some (Sock True)\<rparr>)
      = ((ServerConnection_init 0)\<lparr>connected := True, socket := Some (Sock True), last_ping := 5,
           out := [Emitted \<lparr>eventtype = ''all_raw_messages'', source = Some [], target = None,
                            argument = ['':alice!u@h JOIN #chan'']\<rparr>]\<rparr>, Some TypeError)"
proof -
  have 3: "process_data \<lparr>dispatch = own_dispatch (\<lambda>e. None), fn_to_add_socket = Unset, network = None\<rparr>
        \<lparr>linesep_split = split_lines, ctcp_dequote = (\<lambda>m. [Plain m]), is_channel' = (\<lambda>t. take 1 t = ''#'')\<rparr>
        5 (Data ('':alice!u@h JOIN #chan'' @ crlf))
        ((ServerConnection_init 0)\<lparr>connected := True, socket := Some (Sock True)\<rparr>)
      = ((ServerConnection_init 0)\<lparr>connected := True, socket := Some (Sock True), last_ping := 5,
           out := [Emitted \<lparr>eventtype = ''all_raw_messages'', source = Some [], target = None,
                            argument = ['':alice!u@h JOIN #chan'']\<rparr>]\<rparr>, Some TypeError)"
    by code_simp
  show ?thesis
    using 3 by (simp add: process_line_own_dispatch)
qed

section \<open>Claim C7: what a Nickname holds\<close>

lemma no_bang_nick: "CHR ''!'' \<notin> set n \<Longrightarrow> takeWhile (\<lambda>c. c \<noteq> CHR ''!'') (n @ CHR ''!'' # r) = n"
  by (induction n) auto

text \<open>
  C7, as stated, second half: in \<open>nickname_only\<close> mode the host of the Nickname is null.
  The constructor does not assign \<open>host\<close> in that mode: for the bare name \<open>bob\<close> the
  attribute is unbound, which is not the value null, and reading it raises.
\<close>

theorem C7_nickname_only_host_counterexample:
  "Nickname_init (Some ''bob'') True = Inr \<lparr>name = Some ''bob'', host = Unset\<rparr>
   \<and> getattr (host \<lparr>name = Some ''bob'', host = Unset\<rparr>) = Inl AttributeError
   \<and> getattr (host \<lparr>name = Some ''bob'', host = Unset\<rparr>) \<noteq> Inr None"
  by (simp add: Nickname_init_def)

text \<open>
  C7, amended: a Nickname built from the hostmask \<open>nick!user@host\<close> (the nick holding no
  exclamation mark) has the name \<open>nick\<close> and the whole hostmask as host; a Nickname built
  in \<open>nickname_only\<close> mode from a string has that string as name and no host attribute
  at all, so that reading the host raises an attribute error.
\<close>

theorem C7_nickname:
  "(CHR ''!'' \<notin> set nick \<longrightarrow>
      Nickname_init (Some (nick @ ''!'' @ user @ ''@'' @ hst)) False =
        Inr \<lparr>name = Some nick, host = Bound (Some (nick @ ''!'' @ user @ ''@'' @ hst))\<rparr>)
   \<and> Nickname_init (Some s) True = Inr \<lparr>name = Some s, host = Unset\<rparr>
   \<and> getattr (host \<lparr>name = Some s, host = Unset\<rparr>) = Inl AttributeError"
  by (simp add: Nickname_init_def no_bang_nick)

theorem C7_nickname_witness:
  "CHR ''!'' \<notin> set ''nick''
   \<and> Nickname_init (Some ''nick!user@host'') False =
        Inr \<lparr>name = Some ''nick'', host = Bound (Some ''nick!user@host'')\<rparr>
   \<and> Nickname_init (Some ''bob'') True = Inr \<lparr>name = Some ''bob'', host = Unset\<rparr>"
  using C7_nickname [of "''nick''" "''user''" "''host''" "''bob''"] by simp

end
